theory Spec2Isabelle
  imports Complex_Main
begin

section \<open>Numbers and dates\<close>

text \<open>
  The program is a TypeScript server (\<^verbatim>\<open>src/server/src/index.ts\<close>) with a React client.
  JavaScript numbers that hold money amounts and ratios are modelled as \<^typ>\<open>real\<close>,
  the integer columns of the table (\<^verbatim>\<open>ttamImpressions\<close>, \<^verbatim>\<open>visitor\<close>,
  \<^verbatim>\<open>customers\<close>, \<^verbatim>\<open>id\<close>) as \<^typ>\<open>int\<close> and \<^typ>\<open>nat\<close>. The server's sums and
  quotients are taken exactly; the arithmetic of the auto-analysis page, whose results
  are compared with thresholds, is rounded to doubles operation by operation (section
  on double arithmetic). \<^verbatim>\<open>NaN\<close> and the infinities are outside this model.

  A JavaScript \<^verbatim>\<open>Date\<close> is its time value: milliseconds since the epoch, an \<^typ>\<open>int\<close>.
  The process is taken to run in a zone without daylight saving, and the time value is
  read in that zone, so that the local day of \<open>t\<close> is \<open>t div msPerDay\<close>
  (for the server: \<^verbatim>\<open>TZ=UTC\<close>, where local and UTC accessors coincide). Time values
  beyond the range of \<^verbatim>\<open>Date\<close>, which make an invalid date, are outside this model too.
\<close>

type_synonym jsdate = int

definition msPerDay :: int where
  "msPerDay = 1000 * 60 * 60 * 24"

definition dayOf :: "jsdate \<Rightarrow> int" where
  "dayOf t = t div msPerDay"

text \<open>\<^verbatim>\<open>d.setHours(h, m, s, ms)\<close>: same day, new time of day.\<close>

definition setHours :: "jsdate \<Rightarrow> int \<Rightarrow> int \<Rightarrow> int \<Rightarrow> int \<Rightarrow> jsdate" where
  "setHours t h m s ms = dayOf t * msPerDay + (h * 3600000 + m * 60000 + s * 1000 + ms)"

text \<open>\<^verbatim>\<open>d.setDate(d.getDate() + k)\<close>: \<open>k\<close> days later, same time of day.\<close>

definition addDays :: "jsdate \<Rightarrow> int \<Rightarrow> jsdate" where
  "addDays t k = t + k * msPerDay"

text \<open>\<^verbatim>\<open>Math.round\<close> rounds halves up.\<close>

definition Math_round :: "real \<Rightarrow> int" where
  "Math_round x = \<lfloor>x + 1 / 2\<rfloor>"

text \<open>
  The calendar of ECMAScript (proleptic Gregorian), in closed form: the day number of a
  civil date and back. \<open>daysFromCivil y m d\<close> takes the month as \<open>1..12\<close>.
\<close>

definition daysFromCivil :: "int \<Rightarrow> int \<Rightarrow> int \<Rightarrow> int" where
  "daysFromCivil y m d =
     (let y' = (if m \<le> 2 then y - 1 else y);
          era = y' div 400;
          yoe = y' - era * 400;
          doy = (153 * (if m > 2 then m - 3 else m + 9) + 2) div 5 + d - 1;
          doe = yoe * 365 + yoe div 4 - yoe div 100 + doy
      in era * 146097 + doe - 719468)"

definition civilFromDays :: "int \<Rightarrow> int \<times> int \<times> int" where
  "civilFromDays z =
     (let z' = z + 719468;
          era = z' div 146097;
          doe = z' - era * 146097;
          yoe = (doe - doe div 1460 + doe div 36524 - doe div 146096) div 365;
          doy = doe - (365 * yoe + yoe div 4 - yoe div 100);
          mp = (5 * doy + 2) div 153;
          d = doy - (153 * mp + 2) div 5 + 1;
          m = (if mp < 10 then mp + 3 else mp - 9);
          y = yoe + era * 400
      in ((if m \<le> 2 then y + 1 else y), m, d))"

text \<open>\<^verbatim>\<open>MakeDay\<close>: the month is \<open>0\<close>-based and may lie outside \<open>0..11\<close>, the day may
  overflow the month.\<close>

definition MakeDay :: "int \<Rightarrow> int \<Rightarrow> int \<Rightarrow> int" where
  "MakeDay year month dt = daysFromCivil (year + month div 12) (month mod 12 + 1) 1 + dt - 1"

text \<open>\<^verbatim>\<open>Date.UTC(y, m, d)\<close> and \<^verbatim>\<open>new Date(y, m, d)\<close>: years \<open>0..99\<close> mean \<open>1900..1999\<close>.\<close>

definition Date_UTC :: "int \<Rightarrow> int \<Rightarrow> int \<Rightarrow> jsdate" where
  "Date_UTC y m d = MakeDay (if 0 \<le> y \<and> y \<le> 99 then 1900 + y else y) m d * msPerDay"

definition new_Date3 :: "int \<Rightarrow> int \<Rightarrow> int \<Rightarrow> jsdate" where
  "new_Date3 y m d = Date_UTC y m d"

definition getFullYear :: "jsdate \<Rightarrow> int" where
  "getFullYear t = fst (civilFromDays (dayOf t))"

definition getMonth :: "jsdate \<Rightarrow> int" where
  "getMonth t = fst (snd (civilFromDays (dayOf t))) - 1"

section \<open>Daily records and metric derivation\<close>

text \<open>
  The data of a daily record: what a row of a sheet is parsed into and what
  \<^verbatim>\<open>prisma.dailyRecord.create({ data })\<close> receives. A row of the table \<^verbatim>\<open>DailyRecord\<close> is
  the data with the column \<^verbatim>\<open>id\<close>, here the field \<open>rid\<close>.
\<close>

record RecordData =
  date :: jsdate
  totalSale :: real
  totalSaleGmv :: real
  gmvSaleLive :: real
  gmvAdsSpend :: real
  gmvLiveAdsSpend :: real
  ttamSpendAds :: real
  ttamImpressions :: int
  visitor :: int
  customers :: int

record DailyRecord = RecordData +
  rid :: nat

text \<open>The object \<^verbatim>\<open>calculateMetrics\<close> returns: the record spread, then seven more fields.\<close>

record Metrics = DailyRecord +
  gmvSaleProduct :: real
  directShopSale :: real
  gmvProductAdsSpend :: real
  totalAdsSpend :: real
  cpm :: real
  roiTotal :: real
  roiGmv :: real

text \<open>\<^verbatim>\<open>calculateMetrics\<close> of \<^verbatim>\<open>src/server/src/index.ts\<close>, lines 53 to 77.\<close>

definition calculateMetrics :: "DailyRecord \<Rightarrow> Metrics" where
  "calculateMetrics record =
     (let gmvSaleProduct = totalSaleGmv record - gmvSaleLive record;
          directShopSale = totalSale record - totalSaleGmv record;
          gmvProductAdsSpend = gmvAdsSpend record - gmvLiveAdsSpend record;
          totalAdsSpend = gmvAdsSpend record + ttamSpendAds record;
          cpm = (if ttamImpressions record > 0
                 then (ttamSpendAds record / of_int (ttamImpressions record)) * 1000 else 0);
          roiTotal = (if totalAdsSpend > 0 then totalSale record / totalAdsSpend else 0);
          roiGmv = (if totalAdsSpend > 0 then totalSaleGmv record / totalAdsSpend else 0)
      in DailyRecord.extend record
           (Metrics.fields gmvSaleProduct directShopSale gmvProductAdsSpend totalAdsSpend
              cpm roiTotal roiGmv))"

text \<open>
  The second implementation (the worker of \<^verbatim>\<open>src/unnamed/part_000\<close>, lines 19 to 62) reads
  a row with snake-case columns, any of which may be \<^verbatim>\<open>null\<close>, and defaults each with
  \<^verbatim>\<open>|| 0\<close>.
\<close>

record worker_row =
  w_id :: nat
  w_date :: jsdate
  total_sale :: "real option"
  total_sale_gmv :: "real option"
  gmv_sale_live :: "real option"
  gmv_ads_spend :: "real option"
  gmv_live_ads_spend :: "real option"
  ttam_spend_ads :: "real option"
  ttam_impressions :: "int option"
  w_visitor :: "int option"
  w_customers :: "int option"

text \<open>\<^verbatim>\<open>v || 0\<close> on a number or \<^verbatim>\<open>null\<close>: a falsy value (\<^verbatim>\<open>null\<close>, \<open>0\<close>) gives \<open>0\<close>.\<close>

definition or0 :: "'a::zero option \<Rightarrow> 'a" where
  "or0 v = (case v of None \<Rightarrow> 0 | Some x \<Rightarrow> if x = 0 then 0 else x)"

definition calculateMetrics_worker :: "worker_row \<Rightarrow> Metrics" where
  "calculateMetrics_worker r =
     (let totalSale = or0 (total_sale r);
          totalSaleGmv = or0 (total_sale_gmv r);
          gmvSaleLive = or0 (gmv_sale_live r);
          gmvAdsSpend = or0 (gmv_ads_spend r);
          gmvLiveAdsSpend = or0 (gmv_live_ads_spend r);
          ttamSpendAds = or0 (ttam_spend_ads r);
          ttamImpressions = or0 (ttam_impressions r);
          gmvSaleProduct = totalSaleGmv - gmvSaleLive;
          directShopSale = totalSale - totalSaleGmv;
          gmvProductAdsSpend = gmvAdsSpend - gmvLiveAdsSpend;
          totalAdsSpend = gmvAdsSpend + ttamSpendAds;
          cpm = (if ttamImpressions > 0 then (ttamSpendAds / of_int ttamImpressions) * 1000 else 0);
          roiTotal = (if totalAdsSpend > 0 then totalSale / totalAdsSpend else 0);
          roiGmv = (if totalAdsSpend > 0 then totalSaleGmv / totalAdsSpend else 0)
      in \<lparr> date = w_date r, totalSale = totalSale, totalSaleGmv = totalSaleGmv,
           gmvSaleLive = gmvSaleLive, gmvAdsSpend = gmvAdsSpend,
           gmvLiveAdsSpend = gmvLiveAdsSpend, ttamSpendAds = ttamSpendAds,
           ttamImpressions = ttamImpressions, visitor = or0 (w_visitor r),
           customers = or0 (w_customers r), rid = w_id r,
           gmvSaleProduct = gmvSaleProduct, directShopSale = directShopSale,
           gmvProductAdsSpend = gmvProductAdsSpend, totalAdsSpend = totalAdsSpend,
           cpm = cpm, roiTotal = roiTotal, roiGmv = roiGmv \<rparr>)"

text \<open>A daily record as the worker's table holds it: every column present.\<close>

definition row_of :: "DailyRecord \<Rightarrow> worker_row" where
  "row_of r =
     \<lparr> w_id = rid r, w_date = date r, total_sale = Some (totalSale r),
       total_sale_gmv = Some (totalSaleGmv r), gmv_sale_live = Some (gmvSaleLive r),
       gmv_ads_spend = Some (gmvAdsSpend r), gmv_live_ads_spend = Some (gmvLiveAdsSpend r),
       ttam_spend_ads = Some (ttamSpendAds r), ttam_impressions = Some (ttamImpressions r),
       w_visitor = Some (visitor r), w_customers = Some (customers r) \<rparr>"

section \<open>Aggregation: \<^verbatim>\<open>GET /api/summary\<close>\<close>

text \<open>\<^verbatim>\<open>prisma.dailyRecord.findMany({ where })\<close>: the rows that satisfy the filter. The
  queries of the handlers below carry no \<^verbatim>\<open>orderBy\<close>, so the order of the answer is the
  database's choice; it is the table order here, and no statement below depends on it.\<close>

definition findMany :: "(DailyRecord \<Rightarrow> bool) \<Rightarrow> DailyRecord list \<Rightarrow> DailyRecord list" where
  "findMany wh tbl = filter wh tbl"

text \<open>\<^verbatim>\<open>{ date: { gte: a, lt: b } }\<close> and \<^verbatim>\<open>{ date: { gte: a, lte: b } }\<close>.\<close>

definition date_gte_lt :: "jsdate \<Rightarrow> jsdate \<Rightarrow> DailyRecord \<Rightarrow> bool" where
  "date_gte_lt a b r = (a \<le> date r \<and> date r < b)"

definition date_gte_lte :: "jsdate \<Rightarrow> jsdate \<Rightarrow> DailyRecord \<Rightarrow> bool" where
  "date_gte_lte a b r = (a \<le> date r \<and> date r \<le> b)"

text \<open>
  The JSON of the summary, which is also the client's \<^verbatim>\<open>SummaryData\<close>. Its fields carry
  the prefix \<open>s_\<close> (a record of this theory cannot reuse the field names of
  \<open>Metrics\<close>). \<^verbatim>\<open>visitor\<close> and \<^verbatim>\<open>customers\<close> are optional in the client's interface and
  absent from the server's answer.
\<close>

record SummaryData =
  s_totalSale :: real
  s_totalAdsSpend :: real
  s_roiTotal :: real
  s_roiGmv :: real
  s_totalSaleGmv :: real
  s_totalLiveGmv :: real
  s_totalDirectShop :: real
  s_records :: "Metrics list"
  s_visitor :: "int option"
  s_customers :: "int option"

text \<open>The five running totals of the \<^verbatim>\<open>forEach\<close> of lines 403 to 410, in the order
  totalSale, totalAdsSpend, totalSaleGmv, totalLiveGmv, totalDirectShop.\<close>

type_synonym totals = "real \<times> real \<times> real \<times> real \<times> real"

definition accumulate :: "totals \<Rightarrow> DailyRecord \<Rightarrow> totals" where
  "accumulate acc r =
     (case acc of (totalSale', totalAdsSpend', totalSaleGmv', totalLiveGmv', totalDirectShop') \<Rightarrow>
        (let m = calculateMetrics r
         in (totalSale' + totalSale m, totalAdsSpend' + totalAdsSpend m,
             totalSaleGmv' + totalSaleGmv m, totalLiveGmv' + gmvSaleLive m,
             totalDirectShop' + directShopSale m)))"

text \<open>
  The handler of \<^verbatim>\<open>GET /api/summary\<close>. \<open>start\<close> and \<open>end\<close> are the query parameters
  after \<^verbatim>\<open>new Date(...)\<close>, \<open>None\<close> when the parameter is missing; the answer is the
  status 400 or the JSON.
\<close>

definition summary :: "jsdate option \<Rightarrow> jsdate option \<Rightarrow> DailyRecord list \<Rightarrow> nat + SummaryData" where
  "summary start end tbl =
     (case (start, end) of
        (Some startDate, Some endDate0) \<Rightarrow>
          (let endDate = addDays endDate0 1;
               records = findMany (date_gte_lt startDate endDate) tbl
           in case foldl accumulate (0, 0, 0, 0, 0) records of
                (totalSale', totalAdsSpend', totalSaleGmv', totalLiveGmv', totalDirectShop') \<Rightarrow>
                  (let roiTotal = (if totalAdsSpend' > 0 then totalSale' / totalAdsSpend' else 0);
                       roiGmv = (if totalAdsSpend' > 0 then totalSaleGmv' / totalAdsSpend' else 0)
                   in Inr \<lparr> s_totalSale = totalSale', s_totalAdsSpend = totalAdsSpend',
                            s_roiTotal = roiTotal, s_roiGmv = roiGmv,
                            s_totalSaleGmv = totalSaleGmv', s_totalLiveGmv = totalLiveGmv',
                            s_totalDirectShop = totalDirectShop',
                            s_records = map calculateMetrics records,
                            s_visitor = None, s_customers = None \<rparr>))
      | _ \<Rightarrow> Inl 400)"

subsection \<open>The same computations with every division observed\<close>

text \<open>
  A JavaScript division by zero does not throw: it gives an infinity or \<^verbatim>\<open>NaN\<close>. To see
  whether one is ever evaluated, \<^verbatim>\<open>calculateMetrics\<close> and the summary handler are
  embedded a second time, line by line as above, with the division replaced by
  \<open>divide_checked\<close>: the result is \<open>None\<close> as soon as a quotient with divisor \<open>0\<close> is
  evaluated. A conditional evaluates only the branch it takes.
\<close>

definition divide_checked :: "real \<Rightarrow> real \<Rightarrow> real option" where
  "divide_checked x y = (if y = 0 then None else Some (x / y))"

definition calculateMetrics_checked :: "DailyRecord \<Rightarrow> Metrics option" where
  "calculateMetrics_checked record =
     (let gmvSaleProduct = totalSaleGmv record - gmvSaleLive record;
          directShopSale = totalSale record - totalSaleGmv record;
          gmvProductAdsSpend = gmvAdsSpend record - gmvLiveAdsSpend record;
          totalAdsSpend = gmvAdsSpend record + ttamSpendAds record
      in Option.bind
           (if ttamImpressions record > 0
            then map_option (\<lambda>q. q * 1000)
                   (divide_checked (ttamSpendAds record) (of_int (ttamImpressions record)))
            else Some 0)
           (\<lambda>cpm. Option.bind
              (if totalAdsSpend > 0 then divide_checked (totalSale record) totalAdsSpend
               else Some 0)
              (\<lambda>roiTotal. Option.bind
                 (if totalAdsSpend > 0 then divide_checked (totalSaleGmv record) totalAdsSpend
                  else Some 0)
                 (\<lambda>roiGmv. Some (DailyRecord.extend record
                    (Metrics.fields gmvSaleProduct directShopSale gmvProductAdsSpend
                       totalAdsSpend cpm roiTotal roiGmv))))))"

definition accumulate_checked :: "totals option \<Rightarrow> DailyRecord \<Rightarrow> totals option" where
  "accumulate_checked acc r =
     Option.bind acc (\<lambda>(totalSale', totalAdsSpend', totalSaleGmv', totalLiveGmv', totalDirectShop').
       Option.bind (calculateMetrics_checked r) (\<lambda>m.
         Some (totalSale' + totalSale m, totalAdsSpend' + totalAdsSpend m,
               totalSaleGmv' + totalSaleGmv m, totalLiveGmv' + gmvSaleLive m,
               totalDirectShop' + directShopSale m)))"

definition summary_checked ::
  "jsdate option \<Rightarrow> jsdate option \<Rightarrow> DailyRecord list \<Rightarrow> (nat + SummaryData) option" where
  "summary_checked start end tbl =
     (case (start, end) of
        (Some startDate, Some endDate0) \<Rightarrow>
          (let endDate = addDays endDate0 1;
               records = findMany (date_gte_lt startDate endDate) tbl
           in Option.bind (foldl accumulate_checked (Some (0, 0, 0, 0, 0)) records)
                (\<lambda>(totalSale', totalAdsSpend', totalSaleGmv', totalLiveGmv', totalDirectShop').
                   Option.bind
                     (if totalAdsSpend' > 0 then divide_checked totalSale' totalAdsSpend'
                      else Some 0)
                     (\<lambda>roiTotal. Option.bind
                        (if totalAdsSpend' > 0 then divide_checked totalSaleGmv' totalAdsSpend'
                         else Some 0)
                        (\<lambda>roiGmv. Option.bind (those (map calculateMetrics_checked records))
                           (\<lambda>enriched.
                              Some (Inr \<lparr> s_totalSale = totalSale',
                                          s_totalAdsSpend = totalAdsSpend',
                                          s_roiTotal = roiTotal, s_roiGmv = roiGmv,
                                          s_totalSaleGmv = totalSaleGmv',
                                          s_totalLiveGmv = totalLiveGmv',
                                          s_totalDirectShop = totalDirectShop',
                                          s_records = enriched,
                                          s_visitor = None, s_customers = None \<rparr>))))))
      | _ \<Rightarrow> Some (Inl 400))"

section \<open>Double arithmetic\<close>

text \<open>
  The auto-analysis page compares computed percentages with thresholds, so its
  arithmetic is embedded as the doubles compute it: an operation on two doubles gives
  the exact result rounded to the nearest double, ties to the even significand. \<open>fl\<close> is
  that rounding: \<open>binade\<close> finds the exponent \<open>e\<close> with \<open>2 ^ e \<le> a < 2 ^ (e + 1)\<close> (the
  fuel covers the whole range of doubles), not below \<open>- 1022\<close> where the subnormal
  numbers begin, and the number is rounded to a multiple of \<open>2 ^ (e - 52)\<close>. Results of
  magnitude \<open>2 ^ 1024\<close> and more, which are infinities, are outside the model. Sums of
  visitor and customer counts are integers below \<open>2 ^ 53\<close> and exact.
\<close>

fun binade :: "nat \<Rightarrow> real \<Rightarrow> int \<Rightarrow> int" where
  "binade 0 a e = e"
| "binade (Suc n) a e =
     (if a \<ge> 2 then binade n (a / 2) (e + 1)
      else if a < 1 then binade n (a * 2) (e - 1)
      else e)"

definition fl :: "real \<Rightarrow> real" where
  "fl x =
     (if x = 0 then 0
      else (let a = \<bar>x\<bar>;
                e = max (binade 1100 a 0) (- 1022);
                u = (if e \<ge> 52 then 2 ^ nat (e - 52) else 1 / 2 ^ nat (52 - e));
                q = a / u;
                n = \<lfloor>q\<rfloor>;
                r = q - of_int n;
                m = (if r < 1 / 2 then n else if r > 1 / 2 then n + 1
                     else if even n then n else n + 1)
            in sgn x * of_int m * u))"

section \<open>Diagnosis rules of the auto-analysis page\<close>

text \<open>\<^verbatim>\<open>getChange\<close> of \<^verbatim>\<open>src/client/src/pages/AutoAnalysis.tsx\<close>, lines 85 to 88.\<close>

definition getChange :: "real \<Rightarrow> real \<Rightarrow> real" where
  "getChange curr' prev' =
     (if prev' = 0 then (if curr' > 0 then 100 else 0)
      else fl (fl (fl (curr' - prev') / prev') * 100))"

record Funnel =
  f_visitor :: real
  f_customers :: real
  cr :: real
  aov :: real
  cac :: real
  rpv :: real

text \<open>\<^verbatim>\<open>a || b\<close> where \<open>a\<close> is an optional number: \<open>b\<close> when \<open>a\<close> is missing or \<open>0\<close>.\<close>

definition orElse :: "int option \<Rightarrow> int \<Rightarrow> int" where
  "orElse a b = (case a of None \<Rightarrow> b | Some x \<Rightarrow> if x = 0 then b else x)"

definition calcFunnel :: "SummaryData \<Rightarrow> Funnel" where
  "calcFunnel data =
     (let vis = orElse (s_visitor data)
                  (foldl (\<lambda>acc r. acc + or0 (Some (visitor r))) 0 (s_records data));
          cust = orElse (s_customers data)
                  (foldl (\<lambda>acc r. acc + or0 (Some (customers r))) 0 (s_records data));
          sales = or0 (Some (s_totalSale data));
          spend = or0 (Some (s_totalAdsSpend data))
      in \<lparr> f_visitor = of_int vis, f_customers = of_int cust,
           cr = (if vis > 0 then fl (fl (of_int cust / of_int vis) * 100) else 0),
           aov = (if cust > 0 then fl (sales / of_int cust) else 0),
           cac = (if cust > 0 then fl (spend / of_int cust) else 0),
           rpv = (if vis > 0 then fl (sales / of_int vis) else 0) \<rparr>)"

definition saleChange :: "SummaryData \<Rightarrow> SummaryData \<Rightarrow> real" where
  "saleChange c p = getChange (s_totalSale c) (s_totalSale p)"

definition roiChange :: "SummaryData \<Rightarrow> SummaryData \<Rightarrow> real" where
  "roiChange c p = getChange (s_roiTotal c) (s_roiTotal p)"

definition crChange :: "SummaryData \<Rightarrow> SummaryData \<Rightarrow> real" where
  "crChange c p = getChange (cr (calcFunnel c)) (cr (calcFunnel p))"

definition aovChange :: "SummaryData \<Rightarrow> SummaryData \<Rightarrow> real" where
  "aovChange c p = getChange (aov (calcFunnel c)) (aov (calcFunnel p))"

definition visChange :: "SummaryData \<Rightarrow> SummaryData \<Rightarrow> real" where
  "visChange c p = getChange (f_visitor (calcFunnel c)) (f_visitor (calcFunnel p))"

text \<open>The sale part of \<^verbatim>\<open>report\<close> (lines 124 to 155): the pair
  \<^verbatim>\<open>(saleComment, saleAction)\<close>.\<close>

definition report_sale :: "SummaryData \<Rightarrow> SummaryData \<Rightarrow> string \<times> string" where
  "report_sale c p =
     (if saleChange c p < 0 then
        (if visChange c p < - 10 then
           (''ALERT: Isu Trafik. Penurunan jualan berpunca dari kejatuhan trafik (Visitor) yang ketara. Funnel tersumbat di peringkat Awareness.'',
            ''Tingkatkan bajet 'Traffic Awareness' atau hasilkan video 'Hook' baru untuk menarik trafik baru ke kedai.'')
         else if crChange c p < - 10 then
           (''ALERT: Isu Conversion. Trafik masuk tetapi tidak membeli (CR Drop). Tawaran (Offer) atau Landing Page video mungkin tidak lagi relevan.'',
            ''Semak semula Offer, tambah Urgency (Limited Time Deal), atau perbaiki Product Card / Anchor Link dalam video.'')
         else if aovChange c p < - 10 then
           (''ALERT: Isu Nilai Jualan. Pelanggan membeli, tetapi nilai bakul (AOV) semakin mengecil. Kita kehilangan margin keuntungan.'',
            ''Perkenalkan strategi 'Bundle Deal' atau 'Add-on Deal' untuk menaikkan semula nilai setiap pesanan.'')
         else if roiChange c p < 0 then
           (''Penurunan ROI semasa jualan menurun menunjukkan Ads Efficiency semakin lemah. Kos untuk dapatkan pelanggan (CAC) semakin mahal.'',
            ''Pause ads yang underperforming (CAC tinggi). Fokus bajet pada kempen yang mempunyai 'Lowest Cost' per result.'')
         else
           (''Penurunan jualan keseluruhan. Perlu audit menyeluruh dari trafik ke conversion.'',
            ''Lakukan audit penuh funnel.''))
      else
        (if roiChange c p > 0 then
           (''Prestasi Cemerlang. Jualan dan ROI meningkat serentak. Funnel berfungsi dengan baik dari Trafik -> Conversion -> Profit.'',
            ''Fasa Scaling. Naikkan bajet sebanyak 20% pada kempen yang mempunyai CR & ROI tertinggi.'')
         else
           (''Jualan meningkat TETAPI ROI menurun. Kita 'membeli sales' dengan kos yang mahal (CAC meningkat).'',
            ''Kawal kenaikan CAC. Perbaiki kreatif iklan untuk turunkan kos klik (CPC) dan naikkan relevansi.'')))"

text \<open>
  The selection as the specification words it: seven canned diagnoses, chosen from the
  five changes by thresholds in a fixed priority order.
\<close>

datatype sale_diagnosis =
  TrafficIssue | ConversionIssue | BasketValue | AdsEfficiency | GenericDecline
  | Scaling | BuyingSales

fun select_spec :: "real \<Rightarrow> real \<Rightarrow> real \<Rightarrow> real \<Rightarrow> real \<Rightarrow> sale_diagnosis" where
  "select_spec sale vis conv basket roi =
     (if sale < 0 then
        (if vis < - 10 then TrafficIssue
         else if conv < - 10 then ConversionIssue
         else if basket < - 10 then BasketValue
         else if roi < 0 then AdsEfficiency
         else GenericDecline)
      else (if roi > 0 then Scaling else BuyingSales))"

fun canned_text :: "sale_diagnosis \<Rightarrow> string \<times> string" where
  "canned_text TrafficIssue =
     (''ALERT: Isu Trafik. Penurunan jualan berpunca dari kejatuhan trafik (Visitor) yang ketara. Funnel tersumbat di peringkat Awareness.'',
      ''Tingkatkan bajet 'Traffic Awareness' atau hasilkan video 'Hook' baru untuk menarik trafik baru ke kedai.'')"
| "canned_text ConversionIssue =
     (''ALERT: Isu Conversion. Trafik masuk tetapi tidak membeli (CR Drop). Tawaran (Offer) atau Landing Page video mungkin tidak lagi relevan.'',
      ''Semak semula Offer, tambah Urgency (Limited Time Deal), atau perbaiki Product Card / Anchor Link dalam video.'')"
| "canned_text BasketValue =
     (''ALERT: Isu Nilai Jualan. Pelanggan membeli, tetapi nilai bakul (AOV) semakin mengecil. Kita kehilangan margin keuntungan.'',
      ''Perkenalkan strategi 'Bundle Deal' atau 'Add-on Deal' untuk menaikkan semula nilai setiap pesanan.'')"
| "canned_text AdsEfficiency =
     (''Penurunan ROI semasa jualan menurun menunjukkan Ads Efficiency semakin lemah. Kos untuk dapatkan pelanggan (CAC) semakin mahal.'',
      ''Pause ads yang underperforming (CAC tinggi). Fokus bajet pada kempen yang mempunyai 'Lowest Cost' per result.'')"
| "canned_text GenericDecline =
     (''Penurunan jualan keseluruhan. Perlu audit menyeluruh dari trafik ke conversion.'',
      ''Lakukan audit penuh funnel.'')"
| "canned_text Scaling =
     (''Prestasi Cemerlang. Jualan dan ROI meningkat serentak. Funnel berfungsi dengan baik dari Trafik -> Conversion -> Profit.'',
      ''Fasa Scaling. Naikkan bajet sebanyak 20% pada kempen yang mempunyai CR & ROI tertinggi.'')"
| "canned_text BuyingSales =
     (''Jualan meningkat TETAPI ROI menurun. Kita 'membeli sales' dengan kos yang mahal (CAC meningkat).'',
      ''Kawal kenaikan CAC. Perbaiki kreatif iklan untuk turunkan kos klik (CPC) dan naikkan relevansi.'')"

section \<open>The comparison period\<close>

text \<open>
  \<^verbatim>\<open>GET /api/funnel-metrics\<close>, lines 160 to 198 of \<^verbatim>\<open>index.ts\<close>: from the two query
  dates (after \<^verbatim>\<open>new Date(...)\<close>) the handler computes \<^verbatim>\<open>rangeDays\<close>, \<^verbatim>\<open>pStart\<close> and
  \<^verbatim>\<open>pEnd\<close>; the previous aggregates are taken over \<^verbatim>\<open>{ gte: pStart, lte: pEnd }\<close>.
\<close>

definition funnel_previous :: "jsdate \<Rightarrow> jsdate \<Rightarrow> int \<times> jsdate \<times> jsdate" where
  "funnel_previous start end0 =
     (let end = setHours end0 23 59 59 999;
          oneDay = 1000 * 60 * 60 * 24;
          s = setHours start 0 0 0 0;
          e = setHours end 0 0 0 0;
          rangeDays = Math_round (of_int (e - s) / of_int oneDay) + 1;
          pEnd = setHours (addDays s (- 1)) 23 59 59 999;
          pStart = setHours (addDays pEnd (- rangeDays + 1)) 0 0 0 0
      in (rangeDays, pStart, pEnd))"

text \<open>
  \<^verbatim>\<open>fetchData\<close> of the auto-analysis page, lines 50 to 66 of \<^verbatim>\<open>AutoAnalysis.tsx\<close>.
  \<^verbatim>\<open>toStr\<close> prints the local civil date \<^verbatim>\<open>YYYY-MM-DD\<close>, here the triple (year, month,
  day). The page asks \<^verbatim>\<open>/summary\<close> for the days from \<^verbatim>\<open>toStr(compStart)\<close> to
  \<^verbatim>\<open>toStr(compEnd)\<close>, both included.
\<close>

definition toStr :: "jsdate \<Rightarrow> int \<times> int \<times> int" where
  "toStr d = civilFromDays (dayOf d)"

definition fetchData_comparison :: "jsdate \<Rightarrow> jsdate \<Rightarrow> jsdate \<times> jsdate" where
  "fetchData_comparison start end =
     (let duration = end - start;
          compEnd = start - 86400000;
          compStart = compEnd - duration
      in (compStart, compEnd))"

text \<open>The initial range of the page (lines 22 to 29): the seven days that end today,
  from 00:00:00.000 of the first to 23:59:59.999 of the last. \<open>now\<close> is the clock.\<close>

definition initial_dateRange :: "jsdate \<Rightarrow> jsdate \<times> jsdate" where
  "initial_dateRange now =
     (let end = setHours now 23 59 59 999;
          start = setHours (addDays end (- 6)) 0 0 0 0
      in (start, end))"

section \<open>The table and the state of the server\<close>

text \<open>
  The state the handlers share: the table \<^verbatim>\<open>DailyRecord\<close> (its rows in insertion order,
  and the counter of its autoincrement key) and the module variable
  \<^verbatim>\<open>lastImportBackup\<close> (lines 45 to 50). A month \<^verbatim>\<open>YYYY-MM\<close> is the pair
  \<^verbatim>\<open>[targetYear, targetMonth]\<close> that \<^verbatim>\<open>month.split('-').map(Number)\<close> makes of it.
\<close>

type_synonym month = "int \<times> int"

record backup =
  b_month :: month
  b_records :: "DailyRecord list"
  importedIds :: "nat list"
  timestamp :: jsdate

record server =
  table :: "DailyRecord list"
  nextId :: nat
  lastImportBackup :: "backup option"

text \<open>
  The column \<^verbatim>\<open>date\<close> carries a unique index (\<^verbatim>\<open>DailyRecord_date_key\<close> in
  \<^verbatim>\<open>migration.sql\<close>; \<^verbatim>\<open>seed.ts\<close> upserts by it), so a \<^verbatim>\<open>create\<close> with a date that
  a row already has throws.
\<close>

datatype db_error = UniqueConstraint

definition create :: "RecordData \<Rightarrow> server \<Rightarrow> db_error + (DailyRecord \<times> server)" where
  "create data srv =
     (if date data \<in> set (map date (table srv)) then Inl UniqueConstraint
      else (let record = RecordData.extend data (DailyRecord.fields (nextId srv))
            in Inr (record, srv\<lparr> table := table srv @ [record], nextId := nextId srv + 1 \<rparr>)))"

definition deleteMany :: "(DailyRecord \<Rightarrow> bool) \<Rightarrow> server \<Rightarrow> server" where
  "deleteMany wh srv = srv\<lparr> table := filter (\<lambda>r. \<not> wh r) (table srv) \<rparr>"

definition findFirst :: "(DailyRecord \<Rightarrow> bool) \<Rightarrow> DailyRecord list \<Rightarrow> DailyRecord option" where
  "findFirst wh tbl = find wh tbl"

text \<open>\<^verbatim>\<open>update({ where: { id }, data })\<close> for the nine value columns: the date and the
  id stay.\<close>

definition set_values :: "RecordData \<Rightarrow> DailyRecord \<Rightarrow> DailyRecord" where
  "set_values data r =
     r\<lparr> totalSale := totalSale data, totalSaleGmv := totalSaleGmv data,
        gmvSaleLive := gmvSaleLive data, gmvAdsSpend := gmvAdsSpend data,
        gmvLiveAdsSpend := gmvLiveAdsSpend data, ttamSpendAds := ttamSpendAds data,
        ttamImpressions := ttamImpressions data, visitor := visitor data,
        customers := customers data \<rparr>"

definition update_by_id :: "nat \<Rightarrow> RecordData \<Rightarrow> server \<Rightarrow> server" where
  "update_by_id i data srv =
     srv\<lparr> table := map (\<lambda>r. if rid r = i then set_values data r else r) (table srv) \<rparr>"

section \<open>Saving one record: \<^verbatim>\<open>POST /api/records\<close>\<close>

text \<open>
  The body of the request. The date is a string or a \<^verbatim>\<open>Date\<close>: \<open>Missing\<close> when the
  schema rejects it, \<open>Unparsable\<close> when \<^verbatim>\<open>new Date(...)\<close> makes an invalid date of it
  (the query then throws), \<open>Parsed t\<close> otherwise. \<^verbatim>\<open>visitor\<close> and \<^verbatim>\<open>customers\<close> may be
  absent. The integer columns are typed as integers: a body with a fraction there passes
  the schema and is refused by the database client before any write.
\<close>

datatype date_field = Missing | Unparsable | Parsed jsdate

record body =
  req_date :: date_field
  req_totalSale :: real
  req_totalSaleGmv :: real
  req_gmvSaleLive :: real
  req_gmvAdsSpend :: real
  req_gmvLiveAdsSpend :: real
  req_ttamSpendAds :: real
  req_ttamImpressions :: int
  req_visitor :: "int option"
  req_customers :: "int option"

text \<open>\<^verbatim>\<open>recordSchema.parse\<close> (lines 80 to 100): \<open>None\<close> is the \<^verbatim>\<open>ZodError\<close>. The date of
  the result is filled in by the handler.\<close>

definition recordSchema_parse :: "body \<Rightarrow> RecordData option" where
  "recordSchema_parse b =
     (let visitor' = (case req_visitor b of None \<Rightarrow> 0 | Some v \<Rightarrow> v);
          customers' = (case req_customers b of None \<Rightarrow> 0 | Some v \<Rightarrow> v)
      in if req_date b = Missing then None
         else if req_totalSale b < 0 \<or> req_totalSaleGmv b < 0 \<or> req_gmvSaleLive b < 0
                 \<or> req_gmvAdsSpend b < 0 \<or> req_gmvLiveAdsSpend b < 0
                 \<or> req_ttamSpendAds b < 0 \<or> req_ttamImpressions b < 0
                 \<or> visitor' < 0 \<or> customers' < 0 then None
         else if req_totalSale b \<ge> req_totalSaleGmv b
                 \<and> req_totalSaleGmv b \<ge> req_gmvSaleLive b
                 \<and> req_gmvAdsSpend b \<ge> req_gmvLiveAdsSpend b
         then Some \<lparr> date = 0, totalSale = req_totalSale b, totalSaleGmv = req_totalSaleGmv b,
                     gmvSaleLive = req_gmvSaleLive b, gmvAdsSpend = req_gmvAdsSpend b,
                     gmvLiveAdsSpend = req_gmvLiveAdsSpend b, ttamSpendAds = req_ttamSpendAds b,
                     ttamImpressions = req_ttamImpressions b, visitor = visitor',
                     customers = customers' \<rparr>
         else None)"

datatype mode = Create | Update

text \<open>\<^verbatim>\<open>date.setUTCHours(0, 0, 0, 0)\<close>.\<close>

definition setUTCHours0 :: "jsdate \<Rightarrow> jsdate" where
  "setUTCHours0 t = t - t mod (24 * 60 * 60 * 1000)"

text \<open>The handler, lines 234 to 312: the answer is a status (400, 500) or the mode with
  the saved record's metrics.\<close>

definition post_records :: "body \<Rightarrow> server \<Rightarrow> (nat + mode \<times> Metrics) \<times> server" where
  "post_records b srv =
     (case recordSchema_parse b of
        None \<Rightarrow> (Inl 400, srv)
      | Some validatedData \<Rightarrow>
          (case req_date b of
             Parsed d \<Rightarrow>
               (let date' = setUTCHours0 d;
                    existingRecord =
                      findFirst (date_gte_lt date' (date' + 24 * 60 * 60 * 1000)) (table srv)
                in case existingRecord of
                     Some existing \<Rightarrow>
                       (Inr (Update, calculateMetrics (set_values validatedData existing)),
                        update_by_id (rid existing) validatedData srv)
                   | None \<Rightarrow>
                       (case create (validatedData\<lparr> date := date' \<rparr>) srv of
                          Inl e \<Rightarrow> (Inl 500, srv)
                        | Inr (record, srv') \<Rightarrow> (Inr (Create, calculateMetrics record), srv')))
           | _ \<Rightarrow> (Inl 500, srv)))"

text \<open>The invariant of the table: no two rows on the same UTC day.\<close>

definition one_per_day :: "DailyRecord list \<Rightarrow> bool" where
  "one_per_day tbl = distinct (map (\<lambda>r. dayOf (date r)) tbl)"

section \<open>Bulk import\<close>

text \<open>
  A sheet as \<^verbatim>\<open>XLSX.utils.sheet_to_json(worksheet, { header: 1 })\<close> delivers it, read
  through the library functions the handlers apply to its cells. The first cell of a
  row is \<open>Falsy\<close> (empty, \<open>0\<close>, the empty string), a number with the result of
  \<^verbatim>\<open>XLSX.SSF.parse_date_code\<close> (year, month, day, or nothing), a string with the results
  of \<^verbatim>\<open>parseInt\<close> on its parts between the slashes (\<open>None\<close> is \<^verbatim>\<open>NaN\<close>), or a value of
  another type. The other cells are given by \<^verbatim>\<open>parseFloat(row[i])\<close> and
  \<^verbatim>\<open>parseInt(row[i])\<close>, \<open>None\<close> for \<^verbatim>\<open>NaN\<close>.
\<close>

datatype date_cell =
  Falsy | NumCell "(int \<times> int \<times> int) option" | StrCell "int option list" | OtherCell

record sheet_row =
  c0 :: date_cell
  c1 :: "real option"
  c2 :: "real option"
  c3 :: "real option"
  c4 :: "real option"
  c5 :: "real option"
  c6 :: "real option"
  c7 :: "int option"
  c8 :: "int option"
  c9 :: "int option"

text \<open>\<^verbatim>\<open>parseExcelDate\<close>, lines 432 to 459.\<close>

fun parseExcelDate :: "date_cell \<Rightarrow> jsdate option" where
  "parseExcelDate Falsy = None"
| "parseExcelDate (NumCell None) = None"
| "parseExcelDate (NumCell (Some (y, m, d))) = Some (Date_UTC y (m - 1) d)"
| "parseExcelDate (StrCell [Some day, Some month', Some year]) =
     Some (Date_UTC year (month' - 1) day)"
| "parseExcelDate (StrCell parts) = None"
| "parseExcelDate OtherCell = None"

text \<open>\<^verbatim>\<open>rawData.slice(1).filter(row => row.length > 0 && row[0])\<close>.\<close>

definition dataRows_of :: "sheet_row list \<Rightarrow> sheet_row list" where
  "dataRows_of rawData = filter (\<lambda>row. c0 row \<noteq> Falsy) (drop 1 rawData)"

text \<open>The numeric cells of a row, as both handlers read them (lines 547 to 555 and 657
  to 665): the date is filled in by the caller.\<close>

definition parse_values :: "jsdate \<Rightarrow> sheet_row \<Rightarrow> RecordData" where
  "parse_values d row =
     \<lparr> date = d, totalSale = or0 (c1 row), totalSaleGmv = or0 (c2 row),
       gmvSaleLive = or0 (c3 row), gmvAdsSpend = or0 (c5 row),
       gmvLiveAdsSpend = or0 (c4 row), ttamSpendAds = or0 (c6 row),
       ttamImpressions = or0 (c7 row), visitor = or0 (c8 row), customers = or0 (c9 row) \<rparr>"

subsection \<open>\<^verbatim>\<open>POST /api/import/preview\<close>\<close>

datatype reason =
  InvalidDateFormat | MonthMismatch | SaleBelowGmv | GmvBelowLive | AdsBelowLiveAds
  | CustomersAboveVisitor | DuplicateDate

text \<open>The body of the \<^verbatim>\<open>forEach\<close> of lines 529 to 587: the row is pushed to
  \<^verbatim>\<open>validRows\<close> (\<open>Inr\<close>) or its reason to \<^verbatim>\<open>invalidRows\<close> (\<open>Inl\<close>).\<close>

definition preview_row :: "month \<Rightarrow> sheet_row \<Rightarrow> reason + RecordData" where
  "preview_row mth row =
     (case mth of (targetYear, targetMonth) \<Rightarrow>
        (case parseExcelDate (c0 row) of
           None \<Rightarrow> Inl InvalidDateFormat
         | Some d \<Rightarrow>
             if getMonth d + 1 \<noteq> targetMonth \<or> getFullYear d \<noteq> targetYear then Inl MonthMismatch
             else (let v = parse_values d row
                   in if totalSale v < totalSaleGmv v then Inl SaleBelowGmv
                      else if totalSaleGmv v < gmvSaleLive v then Inl GmvBelowLive
                      else if gmvAdsSpend v < gmvLiveAdsSpend v then Inl AdsBelowLiveAds
                      else if customers v > visitor v then Inl CustomersAboveVisitor
                      else Inr v)))"

text \<open>The second pass, lines 590 to 598: a row of \<^verbatim>\<open>validRows\<close> whose UTC day was seen
  before adds an entry to \<^verbatim>\<open>invalidRows\<close>; \<^verbatim>\<open>validRows\<close> itself is not changed.\<close>

fun duplicate_dates :: "nat \<Rightarrow> RecordData list \<Rightarrow> int list \<Rightarrow> (nat \<times> reason) list" where
  "duplicate_dates index [] dateSet = []"
| "duplicate_dates index (row # rows) dateSet =
     (let dateKey = dayOf (date row)
      in if dateKey \<in> set dateSet
         then (index + 2, DuplicateDate) # duplicate_dates (index + 1) rows dateSet
         else duplicate_dates (index + 1) rows (dateKey # dateSet))"

record preview =
  selectedMonth :: month
  totalRowsInFile :: nat
  validRows :: nat
  invalidRows :: nat
  existingRecordsToDelete :: nat
  errors :: "(nat \<times> reason) list"

datatype upload = NoFile | Unreadable | Sheet "sheet_row list"

definition import_preview :: "month option \<Rightarrow> upload \<Rightarrow> server \<Rightarrow> nat + preview" where
  "import_preview mth file srv =
     (case (mth, file) of
        (Some (targetYear, targetMonth), Sheet rawData) \<Rightarrow>
          (let dataRows = dataRows_of rawData;
               checked = map (preview_row (targetYear, targetMonth)) dataRows;
               validRows' = List.map_filter (\<lambda>c. case c of Inr v \<Rightarrow> Some v | Inl e \<Rightarrow> None) checked;
               invalidRows1 = List.map_filter
                 (\<lambda>(index, c). case c of Inl e \<Rightarrow> Some (index + 2, e) | Inr v \<Rightarrow> None)
                 (zip [0 ..< length checked] checked);
               invalidRows' = invalidRows1 @ duplicate_dates 0 validRows' [];
               startDate = new_Date3 targetYear (targetMonth - 1) 1;
               endDate = new_Date3 targetYear targetMonth 1;
               existingCount = length (findMany (date_gte_lt startDate endDate) (table srv))
           in Inr \<lparr> selectedMonth = (targetYear, targetMonth),
                    totalRowsInFile = length dataRows,
                    validRows = length validRows', invalidRows = length invalidRows',
                    existingRecordsToDelete = existingCount, errors = invalidRows' \<rparr>)
      | (Some m, Unreadable) \<Rightarrow> Inl 500
      | _ \<Rightarrow> Inl 400)"

subsection \<open>\<^verbatim>\<open>POST /api/import/confirm\<close>\<close>

text \<open>The body of the \<^verbatim>\<open>forEach\<close> of lines 652 to 681.\<close>

definition confirm_row :: "month \<Rightarrow> sheet_row \<Rightarrow> RecordData option" where
  "confirm_row mth row =
     (case mth of (targetYear, targetMonth) \<Rightarrow>
        (case parseExcelDate (c0 row) of
           None \<Rightarrow> None
         | Some d \<Rightarrow>
             if getMonth d + 1 \<noteq> targetMonth \<or> getFullYear d \<noteq> targetYear then None
             else (let v = parse_values d row
                   in if totalSale v \<ge> totalSaleGmv v \<and> totalSaleGmv v \<ge> gmvSaleLive v
                         \<and> gmvAdsSpend v \<ge> gmvLiveAdsSpend v
                      then Some v else None)))"

text \<open>The loop of lines 698 to 714. A \<^verbatim>\<open>create\<close> that throws leaves the loop with the
  state reached so far.\<close>

fun insert_rows :: "RecordData list \<Rightarrow> nat list \<Rightarrow> server \<Rightarrow> db_error \<times> server + nat list \<times> server" where
  "insert_rows [] ids srv = Inr (ids, srv)"
| "insert_rows (row # rows) ids srv =
     (case create row srv of
        Inl e \<Rightarrow> Inl (e, srv)
      | Inr (record, srv') \<Rightarrow> insert_rows rows (ids @ [rid record]) srv')"

record import_result =
  i_month :: month
  recordsDeleted :: nat
  recordsImported :: nat
  skipped :: int

text \<open>The handler, lines 630 to 741; \<open>now\<close> is the clock read by \<^verbatim>\<open>new Date()\<close>.\<close>

definition import_confirm ::
  "jsdate \<Rightarrow> month option \<Rightarrow> upload \<Rightarrow> server \<Rightarrow> (nat + import_result) \<times> server" where
  "import_confirm now mth file srv =
     (case (mth, file) of
        (Some (targetYear, targetMonth), Sheet rawData) \<Rightarrow>
          (let dataRows = dataRows_of rawData;
               validRows' = List.map_filter (confirm_row (targetYear, targetMonth)) dataRows;
               startDate = new_Date3 targetYear (targetMonth - 1) 1;
               endDate = new_Date3 targetYear targetMonth 1;
               existingRecords = findMany (date_gte_lt startDate endDate) (table srv);
               srv1 = deleteMany (date_gte_lt startDate endDate) srv
           in case insert_rows validRows' [] srv1 of
                Inl (e, srv2) \<Rightarrow> (Inl 500, srv2)
              | Inr (ids, srv2) \<Rightarrow>
                  (Inr \<lparr> i_month = (targetYear, targetMonth),
                         recordsDeleted = length existingRecords,
                         recordsImported = length ids,
                         skipped = int (length dataRows) - int (length validRows') \<rparr>,
                   srv2\<lparr> lastImportBackup :=
                           Some \<lparr> b_month = (targetYear, targetMonth),
                                  b_records = existingRecords, importedIds = ids,
                                  timestamp = now \<rparr> \<rparr>))
      | (Some m, Unreadable) \<Rightarrow> (Inl 500, srv)
      | _ \<Rightarrow> (Inl 400, srv))"

subsection \<open>\<^verbatim>\<open>POST /api/import/undo\<close>\<close>

text \<open>
  The restoring \<^verbatim>\<open>create\<close> of lines 760 to 771 passes eight columns; \<^verbatim>\<open>visitor\<close> and
  \<^verbatim>\<open>customers\<close> are left to the table, which fills in the defaults of its schema. The
  schema file is not part of the sources, so the two defaults are parameters.
\<close>

record column_defaults =
  visitor_default :: int
  customers_default :: int

fun restore_rows :: "column_defaults \<Rightarrow> DailyRecord list \<Rightarrow> server \<Rightarrow> db_error \<times> server + server" where
  "restore_rows dflt [] srv = Inr srv"
| "restore_rows dflt (record # records) srv =
     (case create \<lparr> date = date record, totalSale = totalSale record,
                    totalSaleGmv = totalSaleGmv record, gmvSaleLive = gmvSaleLive record,
                    gmvAdsSpend = gmvAdsSpend record,
                    gmvLiveAdsSpend = gmvLiveAdsSpend record,
                    ttamSpendAds = ttamSpendAds record,
                    ttamImpressions = ttamImpressions record,
                    visitor = visitor_default dflt, customers = customers_default dflt \<rparr> srv of
        Inl e \<Rightarrow> Inl (e, srv)
      | Inr (created, srv') \<Rightarrow> restore_rows dflt records srv')"

record undo_result =
  u_month :: month
  recordsRestored :: nat
  recordsRemoved :: nat

definition import_undo :: "column_defaults \<Rightarrow> server \<Rightarrow> (nat + undo_result) \<times> server" where
  "import_undo dflt srv =
     (case lastImportBackup srv of
        None \<Rightarrow> (Inl 400, srv)
      | Some b \<Rightarrow>
          (let srv1 = deleteMany (\<lambda>r. rid r \<in> set (importedIds b)) srv
           in case restore_rows dflt (b_records b) srv1 of
                Inl (e, srv2) \<Rightarrow> (Inl 500, srv2)
              | Inr srv2 \<Rightarrow>
                  (Inr \<lparr> u_month = b_month b, recordsRestored = length (b_records b),
                         recordsRemoved = length (importedIds b) \<rparr>,
                   srv2\<lparr> lastImportBackup := None \<rparr>)))"

text \<open>The filter \<^verbatim>\<open>{ date: { gte: startDate, lt: endDate } }\<close> of a month, and the stored
  records of a month, as both import handlers select them.\<close>

definition in_month :: "month \<Rightarrow> DailyRecord \<Rightarrow> bool" where
  "in_month mth r =
     (case mth of (targetYear, targetMonth) \<Rightarrow>
        date_gte_lt (new_Date3 targetYear (targetMonth - 1) 1)
          (new_Date3 targetYear targetMonth 1) r)"

definition month_records :: "month \<Rightarrow> server \<Rightarrow> DailyRecord list" where
  "month_records mth srv = findMany (in_month mth) (table srv)"

text \<open>The rows that successive \<^verbatim>\<open>create\<close> calls make of a list of data when the key
  counter stands at \<open>n\<close>.\<close>

fun new_records :: "nat \<Rightarrow> RecordData list \<Rightarrow> DailyRecord list" where
  "new_records n [] = []"
| "new_records n (v # vs) = RecordData.extend v (DailyRecord.fields n) # new_records (Suc n) vs"

section \<open>Example data\<close>

text \<open>A day without advertising: no impressions, no spend.\<close>

definition quiet_day :: DailyRecord where
  "quiet_day = \<lparr> date = Date_UTC 2026 2 1, totalSale = 500, totalSaleGmv = 0,
     gmvSaleLive = 0, gmvAdsSpend = 0, gmvLiveAdsSpend = 0, ttamSpendAds = 0,
     ttamImpressions = 0, visitor = 40, customers = 4, rid = 1 \<rparr>"

text \<open>The day after, with advertising.\<close>

definition busy_day :: DailyRecord where
  "busy_day = \<lparr> date = Date_UTC 2026 2 2, totalSale = 300, totalSaleGmv = 200,
     gmvSaleLive = 100, gmvAdsSpend = 60, gmvLiveAdsSpend = 20, ttamSpendAds = 40,
     ttamImpressions = 8000, visitor = 90, customers = 9, rid = 2 \<rparr>"

text \<open>Noon of 14 March 2026.\<close>

definition noon_14_march :: jsdate where
  "noon_14_march = Date_UTC 2026 2 14 + 12 * 3600000"

text \<open>A table with one record, of 5 March 2026, and no import so far.\<close>

definition march5 :: DailyRecord where
  "march5 = \<lparr> date = Date_UTC 2026 2 5, totalSale = 1000, totalSaleGmv = 800,
     gmvSaleLive = 500, gmvAdsSpend = 100, gmvLiveAdsSpend = 60, ttamSpendAds = 50,
     ttamImpressions = 50000, visitor = 1000, customers = 50, rid = 1 \<rparr>"

definition srv0 :: server where
  "srv0 = \<lparr> table = [march5], nextId = 2, lastImportBackup = None \<rparr>"

text \<open>Two request bodies: one dated 5 March 2026, 01:00 UTC, one a day later.\<close>

definition body5 :: body where
  "body5 = \<lparr> req_date = Parsed (Date_UTC 2026 2 5 + 3600000), req_totalSale = 5,
     req_totalSaleGmv = 4, req_gmvSaleLive = 3, req_gmvAdsSpend = 2, req_gmvLiveAdsSpend = 1,
     req_ttamSpendAds = 1, req_ttamImpressions = 10, req_visitor = None,
     req_customers = Some 2 \<rparr>"

definition body6 :: body where
  "body6 = body5\<lparr> req_date := Parsed (Date_UTC 2026 2 6 + 3600000) \<rparr>"

text \<open>
  A sheet for March 2026: the header row, then rows written as the template has them.
  \<open>row5\<close> is \<^verbatim>\<open>['05/03/2026', 10, 8, 5, 1, 2, 3, 100, 3, 5]\<close>: three visitors, five
  customers. \<open>row6\<close> is \<^verbatim>\<open>['06/03/2026', 20, 8, 5, 1, 2, 3, 100, 30, 5]\<close>.
\<close>

definition header :: sheet_row where
  "header = \<lparr> c0 = StrCell [None], c1 = None, c2 = None, c3 = None, c4 = None, c5 = None,
     c6 = None, c7 = None, c8 = None, c9 = None \<rparr>"

definition row5 :: sheet_row where
  "row5 = \<lparr> c0 = StrCell [Some 5, Some 3, Some 2026], c1 = Some 10, c2 = Some 8, c3 = Some 5,
     c4 = Some 1, c5 = Some 2, c6 = Some 3, c7 = Some 100, c8 = Some 3, c9 = Some 5 \<rparr>"

definition row6 :: sheet_row where
  "row6 = \<lparr> c0 = StrCell [Some 6, Some 3, Some 2026], c1 = Some 20, c2 = Some 8, c3 = Some 5,
     c4 = Some 1, c5 = Some 2, c6 = Some 3, c7 = Some 100, c8 = Some 30, c9 = Some 5 \<rparr>"

definition zero_defaults :: column_defaults where
  "zero_defaults = \<lparr> visitor_default = 0, customers_default = 0 \<rparr>"

text \<open>A history: an import of \<open>row6\<close> into \<open>srv0\<close>, a second import, of \<open>row5\<close>, and an
  undo.\<close>

definition after_first_import :: server where
  "after_first_import = snd (import_confirm 0 (Some (2026, 3)) (Sheet [header, row6]) srv0)"

definition second_import :: "(nat + import_result) \<times> server" where
  "second_import = import_confirm 1 (Some (2026, 3)) (Sheet [header, row5]) after_first_import"

definition first_undo :: "(nat + undo_result) \<times> server" where
  "first_undo = import_undo zero_defaults (snd second_import)"

text \<open>
  Two summaries at a threshold: 70 visitors in both periods, 10 customers before and 9
  now, sales of 1000 before and 900 now. In exact arithmetic the conversion rate changes
  by \<open>- 10\<close> percent; in doubles by \<open>- 10.000000000000002\<close>.
\<close>

definition threshold_prev :: SummaryData where
  "threshold_prev = \<lparr> s_totalSale = 1000, s_totalAdsSpend = 500, s_roiTotal = 2,
     s_roiGmv = 1, s_totalSaleGmv = 500, s_totalLiveGmv = 200, s_totalDirectShop = 500,
     s_records = [], s_visitor = Some 70, s_customers = Some 10 \<rparr>"

definition threshold_curr :: SummaryData where
  "threshold_curr = \<lparr> s_totalSale = 900, s_totalAdsSpend = 600, s_roiTotal = 3 / 2,
     s_roiGmv = 1, s_totalSaleGmv = 600, s_totalLiveGmv = 200, s_totalDirectShop = 300,
     s_records = [], s_visitor = Some 70, s_customers = Some 9 \<rparr>"

section \<open>Theorems\<close>

lemma or0_Some: "or0 (Some x) = x"
  by (simp add: or0_def)

text \<open>
  C3. \<^verbatim>\<open>calculateMetrics\<close> is a function of its input record alone: it returns the raw
  fields unchanged, extended with gmvSaleProduct = totalSaleGmv - gmvSaleLive,
  directShopSale = totalSale - totalSaleGmv, gmvProductAdsSpend = gmvAdsSpend -
  gmvLiveAdsSpend, totalAdsSpend = gmvAdsSpend + ttamSpendAds, cpm = (ttamSpendAds /
  ttamImpressions) * 1000 when ttamImpressions is positive and 0 otherwise, and
  roiTotal = totalSale / totalAdsSpend, roiGmv = totalSaleGmv / totalAdsSpend when
  totalAdsSpend is positive and 0 otherwise. The worker's implementation agrees with it on
  every daily record.
\<close>

theorem calculateMetrics_formulas:
  "DailyRecord.truncate (calculateMetrics r) = r
   \<and> gmvSaleProduct (calculateMetrics r) = totalSaleGmv r - gmvSaleLive r
   \<and> directShopSale (calculateMetrics r) = totalSale r - totalSaleGmv r
   \<and> gmvProductAdsSpend (calculateMetrics r) = gmvAdsSpend r - gmvLiveAdsSpend r
   \<and> totalAdsSpend (calculateMetrics r) = gmvAdsSpend r + ttamSpendAds r
   \<and> cpm (calculateMetrics r) =
       (if ttamImpressions r > 0 then (ttamSpendAds r / of_int (ttamImpressions r)) * 1000 else 0)
   \<and> roiTotal (calculateMetrics r) =
       (if gmvAdsSpend r + ttamSpendAds r > 0
        then totalSale r / (gmvAdsSpend r + ttamSpendAds r) else 0)
   \<and> roiGmv (calculateMetrics r) =
       (if gmvAdsSpend r + ttamSpendAds r > 0
        then totalSaleGmv r / (gmvAdsSpend r + ttamSpendAds r) else 0)
   \<and> calculateMetrics_worker (row_of r) = calculateMetrics r"
  by (cases r)
     (simp add: calculateMetrics_def calculateMetrics_worker_def row_of_def or0_Some
        DailyRecord.extend_def DailyRecord.truncate_def Metrics.fields_def
        RecordData.defs DailyRecord.defs Let_def)

subsection \<open>Aggregation\<close>

lemma foldl_accumulate:
  "foldl accumulate (a, b, c, d, e) rs =
     (a + (\<Sum>r\<leftarrow>rs. totalSale (calculateMetrics r)),
      b + (\<Sum>r\<leftarrow>rs. totalAdsSpend (calculateMetrics r)),
      c + (\<Sum>r\<leftarrow>rs. totalSaleGmv (calculateMetrics r)),
      d + (\<Sum>r\<leftarrow>rs. gmvSaleLive (calculateMetrics r)),
      e + (\<Sum>r\<leftarrow>rs. directShopSale (calculateMetrics r)))"
  by (induction rs arbitrary: a b c d e) (simp_all add: accumulate_def Let_def add.assoc)

text \<open>
  C7. For the records of the requested range, \<^verbatim>\<open>GET /api/summary\<close> answers with totals
  that are the sums of the per-record derived metrics (totalSale, totalAdsSpend,
  totalSaleGmv, gmvSaleLive and directShopSale, each summed over the records), and
  roiTotal (roiGmv) is the summed totalSale (summed totalSaleGmv) divided by the summed
  totalAdsSpend when that sum is positive, and 0 otherwise: a ratio of sums.
\<close>

theorem summary_totals_are_sums:
  "summary (Some start) (Some end) tbl =
     (let rs = findMany (date_gte_lt start (addDays end 1)) tbl;
          sale = (\<Sum>r\<leftarrow>rs. totalSale (calculateMetrics r));
          spend = (\<Sum>r\<leftarrow>rs. totalAdsSpend (calculateMetrics r));
          gmv = (\<Sum>r\<leftarrow>rs. totalSaleGmv (calculateMetrics r))
      in Inr \<lparr> s_totalSale = sale, s_totalAdsSpend = spend,
               s_roiTotal = (if spend > 0 then sale / spend else 0),
               s_roiGmv = (if spend > 0 then gmv / spend else 0),
               s_totalSaleGmv = gmv,
               s_totalLiveGmv = (\<Sum>r\<leftarrow>rs. gmvSaleLive (calculateMetrics r)),
               s_totalDirectShop = (\<Sum>r\<leftarrow>rs. directShopSale (calculateMetrics r)),
               s_records = map calculateMetrics rs,
               s_visitor = None, s_customers = None \<rparr>)"
  by (simp add: summary_def foldl_accumulate Let_def)

text \<open>On two days with the daily ratios 0 and 3 the summary's ratio is 800 / 100, not
  their mean.\<close>

lemma summary_roi_is_not_the_mean:
  "map_sum id s_roiTotal (summary (Some (date quiet_day)) (Some (date busy_day))
      [quiet_day, busy_day]) = Inr 8
   \<and> (roiTotal (calculateMetrics quiet_day) + roiTotal (calculateMetrics busy_day)) / 2 = 3 / 2"
  by code_simp

lemma calculateMetrics_checked_eq: "calculateMetrics_checked r = Some (calculateMetrics r)"
  by (simp add: calculateMetrics_checked_def calculateMetrics_def divide_checked_def Let_def)

lemma foldl_accumulate_checked:
  "foldl accumulate_checked (Some a) rs = Some (foldl accumulate a rs)"
proof (induction rs arbitrary: a)
  case Nil
  then show ?case by simp
next
  case (Cons r rs)
  have "accumulate_checked (Some a) r = Some (accumulate a r)"
    by (cases a) (simp add: accumulate_checked_def accumulate_def calculateMetrics_checked_eq Let_def)
  with Cons.IH show ?case by simp
qed

lemma those_calculateMetrics_checked:
  "those (map calculateMetrics_checked rs) = Some (map calculateMetrics rs)"
  by (induction rs) (simp_all add: calculateMetrics_checked_eq)

lemma summary_checked_eq: "summary_checked qs qe tbl = Some (summary qs qe tbl)"
proof (cases qs)
  case None
  then show ?thesis by (simp add: summary_checked_def summary_def)
next
  case (Some startDate)
  show ?thesis
  proof (cases qe)
    case None
    with Some show ?thesis by (simp add: summary_checked_def summary_def)
  next
    case (Some endDate0)
    obtain a b c d e where t: "foldl accumulate (0, 0, 0, 0, 0)
        (findMany (date_gte_lt startDate (addDays endDate0 1)) tbl) = (a, b, c, d, e)"
      by (metis prod_cases5)
    show ?thesis
      unfolding \<open>qs = Some startDate\<close> Some
      by (simp add: summary_checked_def summary_def Let_def foldl_accumulate_checked t
          those_calculateMetrics_checked divide_checked_def)
  qed
qed

text \<open>
  C9. Every derived ratio is total, no division by zero is reachable: evaluated with
  every division observed, \<^verbatim>\<open>calculateMetrics\<close> and \<^verbatim>\<open>GET /api/summary\<close> never divide by
  zero, for any record and any table, and give the values of the plain embedding. cpm is
  0 whenever ttamImpressions is not positive, roiTotal and roiGmv of
  \<^verbatim>\<open>calculateMetrics\<close> are 0 whenever totalAdsSpend is not positive, and the aggregate
  roiTotal and roiGmv of the summary are 0 whenever the summed ads spend is not positive.
\<close>

theorem ratios_guarded:
  "(ttamImpressions r \<le> 0 \<longrightarrow> cpm (calculateMetrics r) = 0)
   \<and> (totalAdsSpend (calculateMetrics r) \<le> 0 \<longrightarrow>
        roiTotal (calculateMetrics r) = 0 \<and> roiGmv (calculateMetrics r) = 0)
   \<and> (summary (Some start) (Some end) tbl = Inr S \<longrightarrow> s_totalAdsSpend S \<le> 0 \<longrightarrow>
        s_roiTotal S = 0 \<and> s_roiGmv S = 0)
   \<and> calculateMetrics_checked r = Some (calculateMetrics r)
   \<and> summary_checked qs qe tbl = Some (summary qs qe tbl)"
proof (intro conjI impI)
  assume "ttamImpressions r \<le> 0"
  then show "cpm (calculateMetrics r) = 0"
    by (cases r) (simp add: calculateMetrics_def DailyRecord.extend_def Metrics.fields_def Let_def)
next
  assume "totalAdsSpend (calculateMetrics r) \<le> 0"
  then show "roiTotal (calculateMetrics r) = 0"
    by (cases r) (simp add: calculateMetrics_def DailyRecord.extend_def Metrics.fields_def Let_def)
next
  assume "totalAdsSpend (calculateMetrics r) \<le> 0"
  then show "roiGmv (calculateMetrics r) = 0"
    by (cases r) (simp add: calculateMetrics_def DailyRecord.extend_def Metrics.fields_def Let_def)
next
  assume "summary (Some start) (Some end) tbl = Inr S" and "s_totalAdsSpend S \<le> 0"
  then show "s_roiTotal S = 0"
    by (auto simp add: summary_def Let_def split: prod.splits)
next
  assume "summary (Some start) (Some end) tbl = Inr S" and "s_totalAdsSpend S \<le> 0"
  then show "s_roiGmv S = 0"
    by (auto simp add: summary_def Let_def split: prod.splits)
next
  show "calculateMetrics_checked r = Some (calculateMetrics r)"
    by (rule calculateMetrics_checked_eq)
next
  show "summary_checked qs qe tbl = Some (summary qs qe tbl)"
    by (rule summary_checked_eq)
qed

lemma summary_quiet_day:
  "summary (Some (date quiet_day)) (Some (date quiet_day)) [quiet_day] =
     Inr \<lparr> s_totalSale = 500, s_totalAdsSpend = 0, s_roiTotal = 0, s_roiGmv = 0,
           s_totalSaleGmv = 0, s_totalLiveGmv = 0, s_totalDirectShop = 500,
           s_records = [calculateMetrics quiet_day], s_visitor = None, s_customers = None \<rparr>"
proof -
  have inrange: "date_gte_lt (date quiet_day) (addDays (date quiet_day) 1) quiet_day"
    by (simp add: date_gte_lt_def addDays_def msPerDay_def)
  have acc: "accumulate (0, 0, 0, 0, 0) quiet_day = (500, 0, 0, 0, 500)"
    by (simp add: accumulate_def quiet_day_def calculateMetrics_def DailyRecord.extend_def
        Metrics.fields_def Let_def)
  show ?thesis
    by (simp add: summary_def findMany_def inrange acc Let_def)
qed

theorem ratios_guarded_witness:
  "ttamImpressions quiet_day \<le> 0 \<and> cpm (calculateMetrics quiet_day) = 0
   \<and> totalAdsSpend (calculateMetrics quiet_day) \<le> 0
   \<and> roiTotal (calculateMetrics quiet_day) = 0 \<and> roiGmv (calculateMetrics quiet_day) = 0
   \<and> (\<exists>S. summary (Some (date quiet_day)) (Some (date quiet_day)) [quiet_day] = Inr S
          \<and> s_totalSale S = 500 \<and> s_totalAdsSpend S \<le> 0
          \<and> s_roiTotal S = 0 \<and> s_roiGmv S = 0
          \<and> summary_checked (Some (date quiet_day)) (Some (date quiet_day)) [quiet_day]
              = Some (Inr S))
   \<and> calculateMetrics_checked quiet_day = Some (calculateMetrics quiet_day)
   \<and> divide_checked (totalSale quiet_day) (totalAdsSpend (calculateMetrics quiet_day)) = None"
proof -
  have imp: "ttamImpressions quiet_day \<le> 0"
    by (simp add: quiet_day_def)
  have spend: "totalAdsSpend (calculateMetrics quiet_day) \<le> 0"
    by (simp add: quiet_day_def calculateMetrics_def DailyRecord.extend_def Metrics.fields_def
        Let_def)
  define S where "S = \<lparr> s_totalSale = 500, s_totalAdsSpend = 0, s_roiTotal = 0, s_roiGmv = 0,
           s_totalSaleGmv = 0, s_totalLiveGmv = 0, s_totalDirectShop = 500,
           s_records = [calculateMetrics quiet_day], s_visitor = None, s_customers = (None :: int option) \<rparr>"
  have S: "summary (Some (date quiet_day)) (Some (date quiet_day)) [quiet_day] = Inr S"
    unfolding S_def by (rule summary_quiet_day)
  have sale: "s_totalSale S = 500" and sp: "s_totalAdsSpend S \<le> 0"
    by (simp_all add: S_def)
  have zero: "divide_checked (totalSale quiet_day) (totalAdsSpend (calculateMetrics quiet_day)) = None"
    by (simp add: divide_checked_def quiet_day_def calculateMetrics_def DailyRecord.extend_def
        Metrics.fields_def Let_def)
  note g = ratios_guarded [where r = quiet_day and start = "date quiet_day"
      and ?end = "date quiet_day" and tbl = "[quiet_day]" and S = S
      and qs = "Some (date quiet_day)" and qe = "Some (date quiet_day)"]
  from g S have "summary_checked (Some (date quiet_day)) (Some (date quiet_day)) [quiet_day]
      = Some (Inr S)"
    by simp
  with g imp spend S sale sp zero show ?thesis
    by blast
qed

subsection \<open>Diagnosis\<close>

lemma foldl_add_visitor:
  "foldl (\<lambda>acc r. acc + visitor r) a rs = a + (\<Sum>r\<leftarrow>rs. visitor r)"
  by (induction rs arbitrary: a) simp_all

lemma foldl_add_customers:
  "foldl (\<lambda>acc r. acc + customers r) a rs = a + (\<Sum>r\<leftarrow>rs. customers r)"
  by (induction rs arbitrary: a) simp_all

lemma calcFunnel_eq:
  "calcFunnel d =
     (let vis = (case s_visitor d of None \<Rightarrow> (\<Sum>r\<leftarrow>s_records d. visitor r)
                 | Some v \<Rightarrow> if v = 0 then (\<Sum>r\<leftarrow>s_records d. visitor r) else v);
          cust = (case s_customers d of None \<Rightarrow> (\<Sum>r\<leftarrow>s_records d. customers r)
                  | Some v \<Rightarrow> if v = 0 then (\<Sum>r\<leftarrow>s_records d. customers r) else v)
      in \<lparr> f_visitor = of_int vis, f_customers = of_int cust,
           cr = (if vis > 0 then fl (fl (of_int cust / of_int vis) * 100) else 0),
           aov = (if cust > 0 then fl (s_totalSale d / of_int cust) else 0),
           cac = (if cust > 0 then fl (s_totalAdsSpend d / of_int cust) else 0),
           rpv = (if vis > 0 then fl (s_totalSale d / of_int vis) else 0) \<rparr>)"
  by (simp add: calcFunnel_def orElse_def foldl_add_visitor foldl_add_customers or0_def Let_def
      split: option.splits)

text \<open>
  C6. The sale diagnosis selects exactly one canned analysis and recommendation text by
  fixed thresholds in a fixed priority order: for every pair of current and previous
  summaries, when the sales change is negative, a visitor change below -10 selects the
  traffic text, otherwise a conversion-rate change below -10 the conversion text,
  otherwise an AOV change below -10 the basket-value text, otherwise a negative ROI
  change the ads-efficiency text, otherwise the generic-decline text; when the sales
  change is not negative, a positive ROI change selects the scaling text and otherwise the
  'buying sales' text. The seven texts are pairwise different. The five changes are
  spelled out from the data of the two summaries: a change is the percentage by which
  the current value differs from the previous one, computed in doubles (100 or 0 when
  the previous value is 0); the visitors and customers of a summary are its own count
  or, when that is missing or 0, the sum over its records; the conversion rate is
  customers per visitors in percent and the AOV is sales per customer (0 without
  visitors, without customers).
\<close>

theorem report_sale_selection:
  "report_sale c p =
     (let change = (\<lambda>cur prv :: real.
            if prv = 0 then (if cur > 0 then 100 else 0)
            else fl (fl (fl (cur - prv) / prv) * 100));
          visitors = (\<lambda>d. case s_visitor d of
              None \<Rightarrow> (\<Sum>r\<leftarrow>s_records d. visitor r)
            | Some v \<Rightarrow> if v = 0 then (\<Sum>r\<leftarrow>s_records d. visitor r) else v);
          buyers = (\<lambda>d. case s_customers d of
              None \<Rightarrow> (\<Sum>r\<leftarrow>s_records d. customers r)
            | Some v \<Rightarrow> if v = 0 then (\<Sum>r\<leftarrow>s_records d. customers r) else v);
          conversion = (\<lambda>d. if visitors d > 0
            then fl (fl (of_int (buyers d) / of_int (visitors d)) * 100) else 0);
          basket = (\<lambda>d. if buyers d > 0 then fl (s_totalSale d / of_int (buyers d)) else 0)
      in canned_text
           (select_spec (change (s_totalSale c) (s_totalSale p))
              (change (of_int (visitors c)) (of_int (visitors p)))
              (change (conversion c) (conversion p))
              (change (basket c) (basket p))
              (change (s_roiTotal c) (s_roiTotal p))))
   \<and> inj canned_text"
proof
  have chain: "report_sale c p =
     canned_text (select_spec (saleChange c p) (visChange c p) (crChange c p)
                    (aovChange c p) (roiChange c p))"
    by (simp add: report_sale_def)
  have fv: "f_visitor (calcFunnel d) = of_int (case s_visitor d of
              None \<Rightarrow> (\<Sum>r\<leftarrow>s_records d. visitor r)
            | Some v \<Rightarrow> if v = 0 then (\<Sum>r\<leftarrow>s_records d. visitor r) else v)" for d
    by (simp add: calcFunnel_eq Let_def)
  have fc: "cr (calcFunnel d) =
      (if (case s_visitor d of
              None \<Rightarrow> (\<Sum>r\<leftarrow>s_records d. visitor r)
            | Some v \<Rightarrow> if v = 0 then (\<Sum>r\<leftarrow>s_records d. visitor r) else v) > 0
       then fl (fl (of_int (case s_customers d of
              None \<Rightarrow> (\<Sum>r\<leftarrow>s_records d. customers r)
            | Some v \<Rightarrow> if v = 0 then (\<Sum>r\<leftarrow>s_records d. customers r) else v)
          / of_int (case s_visitor d of
              None \<Rightarrow> (\<Sum>r\<leftarrow>s_records d. visitor r)
            | Some v \<Rightarrow> if v = 0 then (\<Sum>r\<leftarrow>s_records d. visitor r) else v)) * 100)
       else 0)" for d
    by (simp add: calcFunnel_eq Let_def)
  have fa: "aov (calcFunnel d) =
      (if (case s_customers d of
              None \<Rightarrow> (\<Sum>r\<leftarrow>s_records d. customers r)
            | Some v \<Rightarrow> if v = 0 then (\<Sum>r\<leftarrow>s_records d. customers r) else v) > 0
       then fl (s_totalSale d / of_int (case s_customers d of
              None \<Rightarrow> (\<Sum>r\<leftarrow>s_records d. customers r)
            | Some v \<Rightarrow> if v = 0 then (\<Sum>r\<leftarrow>s_records d. customers r) else v))
       else 0)" for d
    by (simp add: calcFunnel_eq Let_def)
  show "report_sale c p =
     (let change = (\<lambda>cur prv :: real.
            if prv = 0 then (if cur > 0 then 100 else 0)
            else fl (fl (fl (cur - prv) / prv) * 100));
          visitors = (\<lambda>d. case s_visitor d of
              None \<Rightarrow> (\<Sum>r\<leftarrow>s_records d. visitor r)
            | Some v \<Rightarrow> if v = 0 then (\<Sum>r\<leftarrow>s_records d. visitor r) else v);
          buyers = (\<lambda>d. case s_customers d of
              None \<Rightarrow> (\<Sum>r\<leftarrow>s_records d. customers r)
            | Some v \<Rightarrow> if v = 0 then (\<Sum>r\<leftarrow>s_records d. customers r) else v);
          conversion = (\<lambda>d. if visitors d > 0
            then fl (fl (of_int (buyers d) / of_int (visitors d)) * 100) else 0);
          basket = (\<lambda>d. if buyers d > 0 then fl (s_totalSale d / of_int (buyers d)) else 0)
      in canned_text
           (select_spec (change (s_totalSale c) (s_totalSale p))
              (change (of_int (visitors c)) (of_int (visitors p)))
              (change (conversion c) (conversion p))
              (change (basket c) (basket p))
              (change (s_roiTotal c) (s_roiTotal p))))"
    unfolding chain Let_def saleChange_def visChange_def crChange_def aovChange_def
      roiChange_def getChange_def fv fc fa ..
next
  show "inj canned_text"
  proof (rule injI)
    fix x y assume "canned_text x = canned_text y"
    then show "x = y" by (cases x; cases y; simp)
  qed
qed

text \<open>At the threshold: with 70 visitors and customers going from 10 to 9 the conversion
  rate changes by \<open>- 10 - 1 / 2 ^ 49\<close> in doubles, which is below \<open>- 10\<close>, and the
  conversion text is selected.\<close>

lemma report_sale_at_threshold:
  "crChange threshold_curr threshold_prev = - 10 - 1 / 2 ^ 49
   \<and> saleChange threshold_curr threshold_prev = - 10
   \<and> visChange threshold_curr threshold_prev = 0
   \<and> report_sale threshold_curr threshold_prev = canned_text ConversionIssue"
  by code_simp

subsection \<open>The comparison period\<close>


lemma setHours_day:
  "0 \<le> h * 3600000 + m * 60000 + s * 1000 + ms
   \<Longrightarrow> h * 3600000 + m * 60000 + s * 1000 + ms < msPerDay
   \<Longrightarrow> dayOf (setHours t h m s ms) = dayOf t"
proof -
  assume a: "0 \<le> h * 3600000 + m * 60000 + s * 1000 + ms"
    and b: "h * 3600000 + m * 60000 + s * 1000 + ms < msPerDay"
  have "(dayOf t * msPerDay + (h * 3600000 + m * 60000 + s * 1000 + ms)) div msPerDay = dayOf t"
    using a b by (simp add: msPerDay_def)
  then show ?thesis by (simp add: setHours_def dayOf_def)
qed

lemma dayOf_midnight: "dayOf (setHours t 0 0 0 0) = dayOf t"
  by (rule setHours_day) (simp_all add: msPerDay_def)

lemma dayOf_end_of_day: "dayOf (setHours t 23 59 59 999) = dayOf t"
  by (rule setHours_day) (simp_all add: msPerDay_def)

lemma dayOf_addDays: "dayOf (addDays t k) = dayOf t + k"
  by (simp add: addDays_def dayOf_def msPerDay_def)

lemma Math_round_int: "Math_round (of_int k) = k"
  by (simp add: Math_round_def)

lemma midnight_eq: "setHours t 0 0 0 0 = dayOf t * msPerDay"
  by (simp add: setHours_def)

lemma end_of_day_eq: "setHours t 23 59 59 999 = dayOf t * msPerDay + (msPerDay - 1)"
  by (simp add: setHours_def msPerDay_def)

text \<open>
  What the server's handler computes, for every request: \<^verbatim>\<open>rangeDays\<close> is the number
  of days from the first to the last day of the request, and the previous period runs
  from the first millisecond of the day \<^verbatim>\<open>rangeDays\<close> days before the start to the last
  millisecond of the day before the start.
\<close>

lemma funnel_previous_period:
  "funnel_previous start end =
     (dayOf end - dayOf start + 1,
      (dayOf start - (dayOf end - dayOf start + 1)) * msPerDay,
      (dayOf start - 1) * msPerDay + (msPerDay - 1))"
proof -
  let ?s = "setHours start 0 0 0 0"
  let ?e = "setHours (setHours end 23 59 59 999) 0 0 0 0"
  let ?d = "dayOf end - dayOf start"
  have diff: "?e - ?s = ?d * msPerDay"
    by (simp add: midnight_eq dayOf_end_of_day algebra_simps)
  have "real_of_int (?e - ?s) / real_of_int (1000 * 60 * 60 * 24) = real_of_int ?d"
    unfolding diff by (simp add: msPerDay_def)
  then have r: "Math_round (real_of_int (?e - ?s) / real_of_int (1000 * 60 * 60 * 24)) = ?d"
    by (simp only: Math_round_int)
  let ?pEnd = "setHours (addDays ?s (- 1)) 23 59 59 999"
  have pe: "?pEnd = (dayOf start - 1) * msPerDay + (msPerDay - 1)"
    by (simp add: end_of_day_eq dayOf_addDays dayOf_midnight)
  have dpe: "dayOf ?pEnd = dayOf start - 1"
    by (simp add: dayOf_end_of_day dayOf_addDays dayOf_midnight)
  have "setHours (addDays ?pEnd (- (?d + 1) + 1)) 0 0 0 0
          = dayOf (addDays ?pEnd (- (?d + 1) + 1)) * msPerDay"
    by (rule midnight_eq)
  also have "\<dots> = (dayOf ?pEnd + (- (?d + 1) + 1)) * msPerDay"
    by (simp only: dayOf_addDays)
  also have "\<dots> = (dayOf start - (?d + 1)) * msPerDay"
    unfolding dpe by simp
  finally have ps: "setHours (addDays ?pEnd (- (?d + 1) + 1)) 0 0 0 0
          = (dayOf start - (?d + 1)) * msPerDay" .
  have "funnel_previous start end =
      (?d + 1, setHours (addDays ?pEnd (- (?d + 1) + 1)) 0 0 0 0, ?pEnd)"
    unfolding funnel_previous_def Let_def r ..
  then have "funnel_previous start end = (?d + 1, (dayOf start - (?d + 1)) * msPerDay, ?pEnd)"
    by (simp only: ps)
  then show ?thesis
    by (simp only: pe)
qed

lemma dayOf_whole: "0 \<le> r \<Longrightarrow> r < msPerDay \<Longrightarrow> dayOf (k * msPerDay + r) = k"
  by (simp add: dayOf_def msPerDay_def)

lemma dayOf_short: "0 < r \<Longrightarrow> r < msPerDay \<Longrightarrow> dayOf (k * msPerDay - r) = k - 1"
proof -
  assume a: "0 < r" and b: "r < msPerDay"
  have "k * msPerDay - r = (k - 1) * msPerDay + (msPerDay - r)"
    by (simp add: algebra_simps)
  moreover have "dayOf ((k - 1) * msPerDay + (msPerDay - r)) = k - 1"
    using a b by (intro dayOf_whole) simp_all
  ultimately show ?thesis by (simp only:)
qed

text \<open>
  What the page computes, for a range that starts at midnight and ends \<open>r\<close> milliseconds
  into its last day: the comparison ends on the day before the start, and it begins as
  many days before the start as the range has when \<open>r\<close> is 0, and one day earlier than
  that when \<open>r\<close> is positive.
\<close>

lemma fetchData_comparison_days:
  assumes r: "0 \<le> r" "r < msPerDay"
  shows "fetchData_comparison (ds * msPerDay) (de * msPerDay + r) = (compStart, compEnd) \<Longrightarrow>
     dayOf compEnd = ds - 1
     \<and> dayOf compStart = (if r = 0 then ds - (de - ds + 1) else ds - (de - ds + 1) - 1)"
proof -
  assume a: "fetchData_comparison (ds * msPerDay) (de * msPerDay + r) = (compStart, compEnd)"
  have ce: "compEnd = (ds - 1) * msPerDay + 0"
    using a by (simp add: fetchData_comparison_def Let_def msPerDay_def algebra_simps)
  have cs: "compStart = (ds - (de - ds + 1)) * msPerDay - r"
    using a by (auto simp add: fetchData_comparison_def Let_def msPerDay_def algebra_simps)
  have "dayOf compEnd = ds - 1"
    unfolding ce by (rule dayOf_whole) (simp_all add: msPerDay_def)
  moreover have "dayOf compStart = (if r = 0 then ds - (de - ds + 1) else ds - (de - ds + 1) - 1)"
  proof (cases "r = 0")
    case True
    have "dayOf ((ds - (de - ds + 1)) * msPerDay + 0) = ds - (de - ds + 1)"
      by (rule dayOf_whole) (simp_all add: msPerDay_def)
    with True show ?thesis by (simp add: cs)
  next
    case False
    with r have "0 < r" by simp
    from dayOf_short [OF this r(2)] False show ?thesis by (simp add: cs)
  qed
  ultimately show ?thesis by simp
qed

text \<open>
  C4 (the claim: the comparison period of \<^verbatim>\<open>GET /api/funnel-metrics\<close> and of the
  auto-analysis page spans as many calendar days as the requested range and ends on the
  day before its start). On the page's own initial range, here the seven days 8 to 14
  March 2026, \<^verbatim>\<open>fetchData\<close> asks for the eight days from 28 February to 7 March, while
  the server's handler takes the seven days from 1 March to 7 March.
\<close>

theorem fetchData_comparison_eight_days:
  "initial_dateRange noon_14_march = (Date_UTC 2026 2 8, Date_UTC 2026 2 14 + (msPerDay - 1))
   \<and> toStr (fst (initial_dateRange noon_14_march)) = (2026, 3, 8)
   \<and> toStr (snd (initial_dateRange noon_14_march)) = (2026, 3, 14)
   \<and> (case initial_dateRange noon_14_march of (start, end) \<Rightarrow>
        (case fetchData_comparison start end of (compStart, compEnd) \<Rightarrow>
           toStr compStart = (2026, 2, 28) \<and> toStr compEnd = (2026, 3, 7)
           \<and> dayOf compEnd - dayOf compStart + 1 = 8
           \<and> dayOf end - dayOf start + 1 = 7)
        \<and> funnel_previous start end
            = (7, Date_UTC 2026 2 1, Date_UTC 2026 2 7 + (msPerDay - 1)))"
  by code_simp

subsection \<open>Saving one record\<close>

lemma setUTCHours0_eq: "setUTCHours0 t = dayOf t * msPerDay"
  by (simp add: setUTCHours0_def dayOf_def msPerDay_def minus_mod_eq_div_mult)

lemma same_day_window:
  "date_gte_lt (setUTCHours0 d) (setUTCHours0 d + 86400000) r
     \<longleftrightarrow> dayOf (date r) = dayOf d"
proof -
  have "(dayOf d * 86400000 \<le> t \<and> t < dayOf d * 86400000 + 86400000)
          \<longleftrightarrow> t div 86400000 = dayOf d" for t :: int
    by auto
  then show ?thesis
    by (simp add: date_gte_lt_def setUTCHours0_eq msPerDay_def dayOf_def [of "date r"])
qed

lemma find_None_iff': "find P xs = None \<longleftrightarrow> (\<forall>x\<in>set xs. \<not> P x)"
  by (induction xs) auto

lemma find_SomeD: "find P xs = Some x \<Longrightarrow> x \<in> set xs \<and> P x"
  by (induction xs) (auto split: if_splits)

lemma date_set_values [simp]: "date (set_values v r) = date r"
  by (simp add: set_values_def)

lemma rid_set_values [simp]: "rid (set_values v r) = rid r"
  by (simp add: set_values_def)

lemma update_by_id_dates: "map date (table (update_by_id i v srv)) = map date (table srv)"
  by (simp add: update_by_id_def comp_def if_distrib [of date] cong: if_cong)

lemma one_per_day_dates: "one_per_day tbl = distinct (map dayOf (map date tbl))"
  by (simp add: one_per_day_def comp_def)

lemma create_fresh:
  "date v \<notin> date ` set (table srv) \<Longrightarrow>
   create v srv =
     Inr (RecordData.extend v (DailyRecord.fields (nextId srv)),
          srv\<lparr> table := table srv @ [RecordData.extend v (DailyRecord.fields (nextId srv))],
               nextId := nextId srv + 1 \<rparr>)"
  by (simp add: create_def Let_def)

lemma date_extend [simp]: "date (RecordData.extend v (DailyRecord.fields i)) = date v"
  by (cases v) (simp add: RecordData.defs DailyRecord.defs)

lemma rid_extend [simp]: "rid (RecordData.extend v (DailyRecord.fields i)) = i"
  by (cases v) (simp add: RecordData.defs DailyRecord.defs)

lemma post_records_saved:
  assumes inv: "one_per_day (table srv)"
    and run: "post_records b srv = (Inr (md, metrics), srv')"
  shows "one_per_day (table srv')
     \<and> (\<exists>d v. req_date b = Parsed d \<and> recordSchema_parse b = Some v
          \<and> (if \<exists>r\<in>set (table srv). dayOf (date r) = dayOf d
              then md = Update
                   \<and> (\<exists>existing\<in>set (table srv). dayOf (date existing) = dayOf d
                         \<and> table srv' = map (\<lambda>r. if rid r = rid existing then set_values v r else r) (table srv)
                         \<and> metrics = calculateMetrics (set_values v existing))
              else md = Create
                   \<and> (\<exists>record. table srv' = table srv @ [record]
                         \<and> date record = dayOf d * msPerDay \<and> metrics = calculateMetrics record)))"
proof -
  from run obtain v where v: "recordSchema_parse b = Some v"
    by (auto simp add: post_records_def split: option.splits)
  from run v obtain d where d: "req_date b = Parsed d"
    by (auto simp add: post_records_def split: date_field.splits)
  let ?w = "date_gte_lt (setUTCHours0 d) (setUTCHours0 d + 86400000)"
  show ?thesis
  proof (cases "findFirst ?w (table srv)")
    case None
    then have no: "\<forall>r\<in>set (table srv). dayOf (date r) \<noteq> dayOf d"
      by (simp add: findFirst_def find_None_iff' same_day_window)
    have fresh: "date (v\<lparr> date := setUTCHours0 d \<rparr>) \<notin> date ` set (table srv)"
    proof
      assume "date (v\<lparr> date := setUTCHours0 d \<rparr>) \<in> date ` set (table srv)"
      then obtain r where r: "r \<in> set (table srv)" and "date r = dayOf d * msPerDay"
        by (auto simp add: setUTCHours0_eq)
      then have "dayOf (date r) = dayOf d" by (simp add: dayOf_def msPerDay_def)
      with no r show False by blast
    qed
    let ?rec = "RecordData.extend (v\<lparr> date := setUTCHours0 d \<rparr>) (DailyRecord.fields (nextId srv))"
    from run v d None have res: "md = Create" "metrics = calculateMetrics ?rec"
      "srv' = srv\<lparr> table := table srv @ [?rec], nextId := nextId srv + 1 \<rparr>"
      by (simp_all add: post_records_def Let_def create_fresh [OF fresh])
    have dr: "date ?rec = dayOf d * msPerDay"
      by (simp add: setUTCHours0_eq)
    have "dayOf (date ?rec) = dayOf d"
      unfolding dr by (simp add: dayOf_def msPerDay_def)
    then have "one_per_day (table srv')"
      using inv no by (auto simp add: one_per_day_def res(3))
    moreover have "\<not> (\<exists>r\<in>set (table srv). dayOf (date r) = dayOf d)"
      using no by blast
    ultimately show ?thesis
      using v d res dr by simp
  next
    case (Some existing)
    then have ex: "existing \<in> set (table srv)" "dayOf (date existing) = dayOf d"
      using find_SomeD [of ?w "table srv" existing] by (simp_all add: findFirst_def same_day_window)
    from run v d Some have res: "md = Update" "metrics = calculateMetrics (set_values v existing)"
      "srv' = update_by_id (rid existing) v srv"
      by (simp_all add: post_records_def Let_def)
    have "one_per_day (table srv')"
      using inv by (simp add: one_per_day_dates res(3) update_by_id_dates)
    moreover have "table srv' = map (\<lambda>r. if rid r = rid existing then set_values v r else r) (table srv)"
      by (simp add: res(3) update_by_id_def)
    ultimately show ?thesis
      using v d res(1,2) ex by auto
  qed
qed

lemma post_records_refused: "post_records b srv = (Inl status, srv') \<Longrightarrow> srv' = srv"
  by (auto simp add: post_records_def Let_def
      split: option.splits date_field.splits sum.splits prod.splits)

text \<open>
  C10. \<^verbatim>\<open>POST /api/records\<close> keeps the invariant that at most one daily record exists per
  UTC calendar day: the submitted date is normalised to midnight UTC; when a record
  exists within that day's 24-hour window it is updated in place (mode update, the
  rows keep their dates and ids, no row is added), and a new record, dated at that
  midnight, is created (mode create) only when none exists for that day. A refused
  request leaves the table as it was.
\<close>

theorem post_records_one_per_day:
  assumes inv: "one_per_day (table srv)"
    and run: "post_records b srv = (resp, srv')"
  shows "one_per_day (table srv')
     \<and> (case resp of
          Inl status \<Rightarrow> srv' = srv
        | Inr (md, metrics) \<Rightarrow>
            (\<exists>d v. req_date b = Parsed d \<and> recordSchema_parse b = Some v
               \<and> (if \<exists>r\<in>set (table srv). dayOf (date r) = dayOf d
                   then md = Update
                        \<and> (\<exists>existing\<in>set (table srv). dayOf (date existing) = dayOf d
                              \<and> table srv' =
                                  map (\<lambda>r. if rid r = rid existing then set_values v r else r)
                                    (table srv)
                              \<and> metrics = calculateMetrics (set_values v existing))
                   else md = Create
                        \<and> (\<exists>record. table srv' = table srv @ [record]
                              \<and> date record = dayOf d * msPerDay
                              \<and> metrics = calculateMetrics record))))"
proof (cases resp)
  case (Inl status)
  with run have "srv' = srv" by (simp add: post_records_refused)
  with inv Inl show ?thesis by simp
next
  case (Inr saved)
  obtain md metrics where saved: "saved = (md, metrics)" by (cases saved)
  from post_records_saved [OF inv run [unfolded Inr saved]] Inr saved
  show ?thesis by simp
qed


theorem post_records_one_per_day_witness:
  "one_per_day (table srv0)
   \<and> map_sum id fst (fst (post_records body5 srv0)) = Inr Update
   \<and> map rid (table (snd (post_records body5 srv0))) = [1]
   \<and> one_per_day (table (snd (post_records body5 srv0)))
   \<and> map_sum id fst (fst (post_records body6 srv0)) = Inr Create
   \<and> map date (table (snd (post_records body6 srv0))) = [Date_UTC 2026 2 5, Date_UTC 2026 2 6]
   \<and> one_per_day (table (snd (post_records body6 srv0)))"
proof -
  have inv: "one_per_day (table srv0)"
    by code_simp
  have run5: "post_records body5 srv0 = (fst (post_records body5 srv0), snd (post_records body5 srv0))"
    by simp
  have run6: "post_records body6 srv0 = (fst (post_records body6 srv0), snd (post_records body6 srv0))"
    by simp
  have after5: "one_per_day (table (snd (post_records body5 srv0)))"
    using post_records_one_per_day [OF inv run5] by (rule conjunct1)
  have after6: "one_per_day (table (snd (post_records body6 srv0)))"
    using post_records_one_per_day [OF inv run6] by (rule conjunct1)
  have m5: "map_sum id fst (fst (post_records body5 srv0)) = Inr Update"
    by code_simp
  have r5: "map rid (table (snd (post_records body5 srv0))) = [1]"
    by code_simp
  have m6: "map_sum id fst (fst (post_records body6 srv0)) = Inr Create"
    by code_simp
  have d6: "map date (table (snd (post_records body6 srv0))) = [Date_UTC 2026 2 5, Date_UTC 2026 2 6]"
    by code_simp
  from inv after5 after6 m5 r5 m6 d6 show ?thesis by blast
qed

subsection \<open>Bulk import and undo\<close>

lemma length_new_records [simp]: "length (new_records n vs) = length vs"
  by (induction vs arbitrary: n) simp_all

lemma create_Inr:
  "create v srv = Inr (record, srv') \<Longrightarrow>
     date v \<notin> date ` set (table srv)
     \<and> record = RecordData.extend v (DailyRecord.fields (nextId srv))
     \<and> srv' = srv\<lparr> table := table srv @ [record], nextId := Suc (nextId srv) \<rparr>"
  by (auto simp add: create_def Let_def split: if_splits)

lemma create_Inl: "create v srv = Inl e \<Longrightarrow> date v \<in> date ` set (table srv)"
  by (auto simp add: create_def Let_def split: if_splits)

lemma insert_rows_done:
  "insert_rows vs ids srv = Inr (ids', srv') \<Longrightarrow>
     srv' = srv\<lparr> table := table srv @ new_records (nextId srv) vs,
                nextId := nextId srv + length vs \<rparr>
     \<and> ids' = ids @ map rid (new_records (nextId srv) vs)"
proof (induction vs arbitrary: ids srv)
  case Nil
  then show ?case by simp
next
  case (Cons v vs)
  from Cons.prems obtain created srv1 where c: "create v srv = Inr (created, srv1)"
    and rest: "insert_rows vs (ids @ [rid created]) srv1 = Inr (ids', srv')"
    by (auto split: sum.splits)
  note c' = create_Inr [OF c]
  from Cons.IH [OF rest] c' show ?case
    by simp
qed

lemma insert_rows_thrown:
  "insert_rows vs ids srv = Inl (e, srv') \<Longrightarrow>
     \<exists>k<length vs.
        srv' = srv\<lparr> table := table srv @ new_records (nextId srv) (take k vs),
                   nextId := nextId srv + k \<rparr>
        \<and> date (vs ! k) \<in> date ` set (table srv')"
proof (induction vs arbitrary: ids srv)
  case Nil
  then show ?case by simp
next
  case (Cons v vs)
  show ?case
  proof (cases "create v srv")
    case (Inl e')
    with Cons.prems have "srv' = srv" by simp
    moreover from Inl have "date v \<in> date ` set (table srv)" by (rule create_Inl)
    ultimately have "srv' = srv\<lparr> table := table srv @ new_records (nextId srv) (take 0 (v # vs)),
                   nextId := nextId srv + 0 \<rparr>
        \<and> date ((v # vs) ! 0) \<in> date ` set (table srv')"
      by simp
    then show ?thesis by blast
  next
    case (Inr p)
    obtain created srv1 where p: "p = (created, srv1)" by (cases p)
    note c' = create_Inr [OF Inr [unfolded p]]
    from Cons.prems Inr p have "insert_rows vs (ids @ [rid created]) srv1 = Inl (e, srv')"
      by simp
    from Cons.IH [OF this] obtain k where k: "k < length vs"
      and s: "srv' = srv1\<lparr> table := table srv1 @ new_records (nextId srv1) (take k vs),
                   nextId := nextId srv1 + k \<rparr>"
      and d: "date (vs ! k) \<in> date ` set (table srv')"
      by blast
    have "srv' = srv\<lparr> table := table srv @ new_records (nextId srv) (take (Suc k) (v # vs)),
                   nextId := nextId srv + Suc k \<rparr>"
      using s c' by simp
    moreover have "date ((v # vs) ! Suc k) \<in> date ` set (table srv')"
      using d by simp
    moreover have "Suc k < length (v # vs)" using k by simp
    ultimately show ?thesis by blast
  qed
qed

lemma import_confirm_Sheet:
  "import_confirm now (Some mth) (Sheet rawData) srv =
     (case insert_rows (List.map_filter (confirm_row mth) (dataRows_of rawData)) []
             (deleteMany (in_month mth) srv) of
        Inl (e, srv2) \<Rightarrow> (Inl 500, srv2)
      | Inr (ids, srv2) \<Rightarrow>
          (Inr \<lparr> i_month = mth, recordsDeleted = length (month_records mth srv),
                 recordsImported = length ids,
                 skipped = int (length (dataRows_of rawData))
                           - int (length (List.map_filter (confirm_row mth) (dataRows_of rawData))) \<rparr>,
           srv2\<lparr> lastImportBackup :=
                   Some \<lparr> b_month = mth, b_records = month_records mth srv,
                          importedIds = ids, timestamp = now \<rparr> \<rparr>))"
proof -
  obtain targetYear targetMonth where m: "mth = (targetYear, targetMonth)" by (cases mth)
  have w: "in_month (targetYear, targetMonth) =
      date_gte_lt (new_Date3 targetYear (targetMonth - 1) 1) (new_Date3 targetYear targetMonth 1)"
    by (rule ext) (simp add: in_month_def)
  show ?thesis
    unfolding m import_confirm_def month_records_def w by (simp add: Let_def)
qed

lemma import_confirm_other:
  "import_confirm now mth upl srv = (Inr res, srv') \<Longrightarrow>
     \<exists>m rawData. mth = Some m \<and> upl = Sheet rawData"
  by (auto simp add: import_confirm_def split: option.splits upload.splits prod.splits)

text \<open>
  C2, as amended. \<^verbatim>\<open>POST /api/import/confirm\<close> replaces a month's data step by step, not
  in a transaction: it deletes the stored records of the month and then inserts the
  valid rows of the file one at a time. When every insert succeeds, the answer is the
  success, all records stored for that month before are deleted and all valid rows are
  inserted. When an insert throws, which it does at the first row whose date is already
  stored, the answer is the error 500, the month's previous records stay deleted, the
  rows before that row stay inserted, and the undo backup is left as it was. Records
  outside the month are kept in both cases.
\<close>

theorem import_confirm_stepwise:
  assumes run: "import_confirm now (Some mth) (Sheet rawData) srv = (resp, srv')"
  shows "(let valid = List.map_filter (confirm_row mth) (dataRows_of rawData);
              kept = filter (\<lambda>r. \<not> in_month mth r) (table srv)
          in case resp of
               Inr res \<Rightarrow>
                 table srv' = kept @ new_records (nextId srv) valid
                 \<and> recordsDeleted res = length (month_records mth srv)
                 \<and> recordsImported res = length valid
               | Inl status \<Rightarrow>
                 status = 500
                 \<and> (\<exists>k<length valid.
                       table srv' = kept @ new_records (nextId srv) (take k valid)
                       \<and> date (valid ! k) \<in> date ` set (table srv'))
                 \<and> lastImportBackup srv' = lastImportBackup srv)"
proof -
  let ?valid = "List.map_filter (confirm_row mth) (dataRows_of rawData)"
  let ?srv1 = "deleteMany (in_month mth) srv"
  have t1: "table ?srv1 = filter (\<lambda>r. \<not> in_month mth r) (table srv)"
    and n1: "nextId ?srv1 = nextId srv" and b1: "lastImportBackup ?srv1 = lastImportBackup srv"
    by (simp_all add: deleteMany_def)
  show ?thesis
  proof (cases "insert_rows ?valid [] ?srv1")
    case (Inl p)
    obtain e srv2 where p: "p = (e, srv2)" by (cases p)
    from run Inl p have r: "resp = Inl 500" "srv' = srv2"
      by (simp_all add: import_confirm_Sheet)
    from insert_rows_thrown [OF Inl [unfolded p]] obtain k where "k < length ?valid"
      "srv2 = ?srv1\<lparr> table := table ?srv1 @ new_records (nextId ?srv1) (take k ?valid),
                     nextId := nextId ?srv1 + k \<rparr>"
      "date (?valid ! k) \<in> date ` set (table srv2)"
      by blast
    then show ?thesis
      unfolding Let_def r t1 n1 by (auto simp add: b1)
  next
    case (Inr p)
    obtain ids srv2 where p: "p = (ids, srv2)" by (cases p)
    note d = insert_rows_done [OF Inr [unfolded p]]
    from run Inr p have r: "resp = Inr \<lparr> i_month = mth,
          recordsDeleted = length (month_records mth srv), recordsImported = length ids,
          skipped = int (length (dataRows_of rawData)) - int (length ?valid) \<rparr>"
      and s': "srv' = srv2\<lparr> lastImportBackup :=
                   Some \<lparr> b_month = mth, b_records = month_records mth srv,
                          importedIds = ids, timestamp = now \<rparr> \<rparr>"
      by (auto simp add: import_confirm_Sheet)
    from d have "length ids = length ?valid" by simp
    with d show ?thesis
      unfolding Let_def r s' by (simp add: t1 n1)
  qed
qed

theorem import_confirm_stepwise_witness:
  "fst (import_confirm 0 (Some (2026, 3)) (Sheet [header, row6, row6]) srv0) = Inl 500
   \<and> table (snd (import_confirm 0 (Some (2026, 3)) (Sheet [header, row6, row6]) srv0))
       = new_records 2 [parse_values (Date_UTC 2026 2 6) row6]
   \<and> lastImportBackup (snd (import_confirm 0 (Some (2026, 3)) (Sheet [header, row6, row6]) srv0))
       = None
   \<and> map_sum id recordsImported
         (fst (import_confirm 0 (Some (2026, 3)) (Sheet [header, row5, row6]) srv0)) = Inr 2
   \<and> table (snd (import_confirm 0 (Some (2026, 3)) (Sheet [header, row5, row6]) srv0))
       = new_records 2 [parse_values (Date_UTC 2026 2 5) row5, parse_values (Date_UTC 2026 2 6) row6]"
proof -
  let ?twice = "import_confirm 0 (Some (2026, 3)) (Sheet [header, row6, row6]) srv0"
  let ?both = "import_confirm 0 (Some (2026, 3)) (Sheet [header, row5, row6]) srv0"
  have thrown: "fst ?twice = Inl 500"
    by code_simp
  then have run: "?twice = (Inl 500, snd ?twice)"
    by (simp add: prod_eq_iff)
  have "lastImportBackup (snd ?twice) = lastImportBackup srv0"
    using import_confirm_stepwise [OF run] by (simp add: Let_def)
  moreover have "lastImportBackup srv0 = None"
    by code_simp
  ultimately have backup: "lastImportBackup (snd ?twice) = None"
    by simp
  have partial: "table (snd ?twice) = new_records 2 [parse_values (Date_UTC 2026 2 6) row6]"
    by code_simp
  have run2: "?both = (fst ?both, snd ?both)"
    by simp
  have ok: "map_sum id recordsImported (fst ?both) = Inr 2"
    by code_simp
  then obtain res where res: "fst ?both = Inr res"
    by (cases "fst ?both") simp_all
  have valid: "List.map_filter (confirm_row (2026, 3)) (dataRows_of [header, row5, row6])
      = [parse_values (Date_UTC 2026 2 5) row5, parse_values (Date_UTC 2026 2 6) row6]"
    by code_simp
  have kept: "filter (\<lambda>r. \<not> in_month (2026, 3) r) (table srv0) = []"
    by code_simp
  have n0: "nextId srv0 = 2"
    by code_simp
  have full: "table (snd ?both)
      = new_records 2 [parse_values (Date_UTC 2026 2 5) row5, parse_values (Date_UTC 2026 2 6) row6]"
    using import_confirm_stepwise [OF run2] unfolding res valid kept n0 Let_def by simp
  from thrown partial backup ok full show ?thesis
    by blast
qed

text \<open>
  Without the amendment the statement fails: for a sheet with the same date twice the
  handler answers with the error 500, and the month's stored records are no longer what
  they were: the record of 5 March is deleted and the first of the two rows is inserted.
\<close>

theorem import_confirm_partial_counterexample:
  "fst (import_confirm 0 (Some (2026, 3)) (Sheet [header, row6, row6]) srv0) = Inl 500
   \<and> month_records (2026, 3) srv0 = [march5]
   \<and> month_records (2026, 3)
         (snd (import_confirm 0 (Some (2026, 3)) (Sheet [header, row6, row6]) srv0))
       = new_records 2 [parse_values (Date_UTC 2026 2 6) row6]
   \<and> month_records (2026, 3)
         (snd (import_confirm 0 (Some (2026, 3)) (Sheet [header, row6, row6]) srv0))
       \<noteq> month_records (2026, 3) srv0"
proof -
  let ?after = "snd (import_confirm 0 (Some (2026, 3)) (Sheet [header, row6, row6]) srv0)"
  have thrown: "fst (import_confirm 0 (Some (2026, 3)) (Sheet [header, row6, row6]) srv0) = Inl 500"
    by code_simp
  have before: "month_records (2026, 3) srv0 = [march5]"
    by code_simp
  have after: "month_records (2026, 3) ?after = new_records 2 [parse_values (Date_UTC 2026 2 6) row6]"
    by code_simp
  have "map rid (month_records (2026, 3) ?after) = [2]"
    by code_simp
  moreover have "map rid (month_records (2026, 3) srv0) = [1]"
    by code_simp
  ultimately have "month_records (2026, 3) ?after \<noteq> month_records (2026, 3) srv0"
    by auto
  with thrown before after show ?thesis
    by blast
qed

text \<open>
  C8. One snapshot is retained and undo applies to the most recent import only: without
  a backup \<^verbatim>\<open>POST /api/import/undo\<close> answers 400 and leaves the state as it is; a
  successful import overwrites whatever backup there was with the records the month held
  before it; a successful undo clears the backup, so that a second undo in a row answers
  400.
\<close>

theorem single_snapshot:
  "(lastImportBackup srv = None \<longrightarrow> import_undo dflt srv = (Inl 400, srv))
   \<and> (import_confirm now mth upl srv = (Inr res, srv') \<longrightarrow>
        (\<exists>m ids. mth = Some m \<and> length ids = recordsImported res
           \<and> lastImportBackup srv' =
               Some \<lparr> b_month = m, b_records = month_records m srv, importedIds = ids,
                      timestamp = now \<rparr>))
   \<and> (import_undo dflt srv = (Inr undone, srv'') \<longrightarrow>
        lastImportBackup srv'' = None \<and> import_undo dflt srv'' = (Inl 400, srv''))"
proof (intro conjI impI)
  assume "lastImportBackup srv = None"
  then show "import_undo dflt srv = (Inl 400, srv)"
    by (simp add: import_undo_def)
next
  assume run: "import_confirm now mth upl srv = (Inr res, srv')"
  from import_confirm_other [OF run] obtain m rawData where mf: "mth = Some m" "upl = Sheet rawData"
    by blast
  from run show "\<exists>m ids. mth = Some m \<and> length ids = recordsImported res
           \<and> lastImportBackup srv' =
               Some \<lparr> b_month = m, b_records = month_records m srv, importedIds = ids,
                      timestamp = now \<rparr>"
    unfolding mf import_confirm_Sheet by (auto split: sum.splits prod.splits)
next
  assume run: "import_undo dflt srv = (Inr undone, srv'')"
  then show "lastImportBackup srv'' = None"
    by (auto simp add: import_undo_def Let_def split: option.splits sum.splits prod.splits)
  then show "import_undo dflt srv'' = (Inl 400, srv'')"
    by (simp add: import_undo_def)
qed

theorem single_snapshot_witness:
  "lastImportBackup srv0 = None
   \<and> import_undo zero_defaults srv0 = (Inl 400, srv0)
   \<and> map_option b_records (lastImportBackup after_first_import) = Some [march5]
   \<and> map_sum id recordsImported (fst second_import) = Inr 1
   \<and> map_option b_records (lastImportBackup (snd second_import))
       = Some (month_records (2026, 3) after_first_import)
   \<and> map rid (month_records (2026, 3) after_first_import) = [2]
   \<and> map_sum id recordsRestored (fst first_undo) = Inr 1
   \<and> lastImportBackup (snd first_undo) = None
   \<and> import_undo zero_defaults (snd first_undo) = (Inl 400, snd first_undo)"
proof -
  have none0: "lastImportBackup srv0 = None"
    by code_simp
  have undo0: "import_undo zero_defaults srv0 = (Inl 400, srv0)"
    using single_snapshot [where srv = srv0 and dflt = zero_defaults] none0 by blast
  have b1: "map_option b_records (lastImportBackup after_first_import) = Some [march5]"
    by code_simp
  have imported: "map_sum id recordsImported (fst second_import) = Inr 1"
    by code_simp
  then obtain res where res: "fst second_import = Inr res"
    by (cases "fst second_import") simp_all
  have run2: "import_confirm 1 (Some (2026, 3)) (Sheet [header, row5]) after_first_import
      = (Inr res, snd second_import)"
    using res by (simp add: second_import_def prod_eq_iff)
  from single_snapshot [where srv = after_first_import and now = 1
        and mth = "Some (2026, 3)" and upl = "Sheet [header, row5]" and res = res
        and srv' = "snd second_import"] run2
  obtain m ids where m: "Some (2026, 3) = Some m"
    and b: "lastImportBackup (snd second_import) =
              Some \<lparr> b_month = m, b_records = month_records m after_first_import,
                     importedIds = ids, timestamp = 1 \<rparr>"
    by blast
  from m have "m = (2026, 3)"
    by (simp only: option.inject)
  then have b2: "map_option b_records (lastImportBackup (snd second_import))
       = Some (month_records (2026, 3) after_first_import)"
    by (simp only: b option.map backup.simps)
  have ids: "map rid (month_records (2026, 3) after_first_import) = [2]"
    by code_simp
  have restored: "map_sum id recordsRestored (fst first_undo) = Inr 1"
    by code_simp
  then obtain undone where undone: "fst first_undo = Inr undone"
    by (cases "fst first_undo") simp_all
  have run3: "import_undo zero_defaults (snd second_import) = (Inr undone, snd first_undo)"
    using undone by (simp add: first_undo_def prod_eq_iff)
  have b3: "lastImportBackup (snd first_undo) = None
      \<and> import_undo zero_defaults (snd first_undo) = (Inl 400, snd first_undo)"
    using single_snapshot [where srv = "snd second_import" and dflt = zero_defaults
        and undone = undone and srv'' = "snd first_undo"] run3
    by blast
  from none0 undo0 b1 imported b2 ids restored b3 show ?thesis
    by blast
qed

text \<open>
  C1 (the claim: an import for a month followed by an undo restores the stored records
  of that month, every field of every record, visitor and customers included). The table
  holds one record of March 2026 with 1000 visitors and 50 customers; a sheet with one
  row for 6 March is imported and the import undone. The record that comes back carries
  the column defaults of the schema in visitor and customers, whatever they are, and a
  new id.
\<close>

theorem undo_drops_visitor_and_customers:
  "month_records (2026, 3) srv0 = [march5]
   \<and> visitor march5 = 1000 \<and> customers march5 = 50
   \<and> (\<forall>now dflt.
        (case import_confirm now (Some (2026, 3)) (Sheet [header, row6]) srv0 of
           (imported, srv1) \<Rightarrow>
             (case import_undo dflt srv1 of
                (undone, srv2) \<Rightarrow>
                  imported = Inr \<lparr> i_month = (2026, 3), recordsDeleted = 1,
                                   recordsImported = 1, skipped = 0 \<rparr>
                  \<and> undone = Inr \<lparr> u_month = (2026, 3), recordsRestored = 1,
                                    recordsRemoved = 1 \<rparr>
                  \<and> month_records (2026, 3) srv2 =
                      [march5\<lparr> visitor := visitor_default dflt,
                               customers := customers_default dflt, rid := 3 \<rparr>])))"
proof (intro conjI allI)
  show "month_records (2026, 3) srv0 = [march5]"
    by code_simp
  show "visitor march5 = 1000"
    by code_simp
  show "customers march5 = 50"
    by code_simp
next
  fix now dflt
  show "case import_confirm now (Some (2026, 3)) (Sheet [header, row6]) srv0 of
           (imported, srv1) \<Rightarrow>
             (case import_undo dflt srv1 of
                (undone, srv2) \<Rightarrow>
                  imported = Inr \<lparr> i_month = (2026, 3), recordsDeleted = 1,
                                   recordsImported = 1, skipped = 0 \<rparr>
                  \<and> undone = Inr \<lparr> u_month = (2026, 3), recordsRestored = 1,
                                    recordsRemoved = 1 \<rparr>
                  \<and> month_records (2026, 3) srv2 =
                      [march5\<lparr> visitor := visitor_default dflt,
                               customers := customers_default dflt, rid := 3 \<rparr>])"
    by code_simp
qed

text \<open>
  C5 (the claim: the rows the preview counts as valid are the rows the confirmation
  inserts, both applying the same validation, so that \<^verbatim>\<open>validRows\<close> equals
  \<^verbatim>\<open>recordsImported\<close>). For a sheet whose only row has 5 customers and 3 visitors the
  preview reports no valid row, and the confirmation inserts the row. For a sheet with
  the same date twice the preview still counts both rows as valid, and the confirmation
  ends with the error 500 after the first insert.
\<close>

theorem preview_and_confirm_disagree:
  "map_sum id validRows (import_preview (Some (2026, 3)) (Sheet [header, row5]) srv0) = Inr 0
   \<and> map_sum id errors (import_preview (Some (2026, 3)) (Sheet [header, row5]) srv0)
       = Inr [(2, CustomersAboveVisitor)]
   \<and> map_sum id recordsImported
         (fst (import_confirm 0 (Some (2026, 3)) (Sheet [header, row5]) srv0)) = Inr 1
   \<and> map (\<lambda>r. (visitor r, customers r))
         (table (snd (import_confirm 0 (Some (2026, 3)) (Sheet [header, row5]) srv0)))
       = [(3, 5)]
   \<and> map_sum id validRows
         (import_preview (Some (2026, 3)) (Sheet [header, row6, row6]) srv0) = Inr 2
   \<and> map_sum id errors (import_preview (Some (2026, 3)) (Sheet [header, row6, row6]) srv0)
       = Inr [(3, DuplicateDate)]
   \<and> fst (import_confirm 0 (Some (2026, 3)) (Sheet [header, row6, row6]) srv0) = Inl 500"
  by (intro conjI; code_simp)

end
